theory Spec2Isabelle
  imports Complex_Main "HOL-Library.AList"
begin

section \<open>Values\<close>

text \<open>
  Drizzle maps a \<open>numeric\<close> column to a decimal string; the storage code reads every such
  field with \<open>parseFloat(x.toString())\<close> and computes on JavaScript numbers. The model
  computes on exact rationals: a stored decimal is the rational it denotes, and the
  arithmetic of the code is carried out without IEEE-754 rounding error. The code's
  doubles agree with this wherever every intermediate value is a double, as on the
  integer-valued examples below; elsewhere a double can differ from the exact value in
  the last place.
\<close>

type_synonym numeric = rat

text \<open>
  The update routes hand \<open>req.body\<close> to the storage layer unvalidated, so a patch field
  declared \<open>string\<close> can hold a JSON number at run time. \<open>JNumber r\<close> is the number
  \<open>r\<close>; \<open>JString r\<close> is a non-empty decimal string that \<open>parseFloat\<close> reads as \<open>r\<close>
  (the empty string and strings that parse to NaN are outside the model).
\<close>

datatype jsval = JNumber rat | JString rat

text \<open>JavaScript truthiness: the number 0 is falsy, every non-empty string is truthy.\<close>

fun truthy :: "jsval \<Rightarrow> bool" where
  "truthy (JNumber r) = (r \<noteq> 0)"
| "truthy (JString r) = True"

text \<open>\<open>parseFloat(v.toString())\<close>.\<close>

fun parseFloat :: "jsval \<Rightarrow> rat" where
  "parseFloat (JNumber r) = r"
| "parseFloat (JString r) = r"

text \<open>
  \<open>x.toFixed(2)\<close>: the sign is split off, then the integer \<open>n\<close> with \<open>n / 100\<close> closest
  to \<open>|x|\<close> is taken, the larger one on a tie. Here \<open>x\<close> is the exact value; the code
  rounds the double it computed, which on an exact tie (3 * 1.15 * 0.9 = 3.105) can lie
  below the tie and round down. The general statements below that mention \<open>toFixed2\<close>
  are about this exact reading; the examples evaluate it on integers only.
\<close>

definition toFixed2 :: "rat \<Rightarrow> numeric" where
  "toFixed2 x =
     (if x < 0 then - (of_int \<lfloor>(- x) * 100 + 1 / 2\<rfloor> / 100)
      else of_int \<lfloor>x * 100 + 1 / 2\<rfloor> / 100)"

text \<open>
  \<open>NotFound kind id\<close> is \<open>new Error(`${kind} with ID ${id} not found`)\<close>; \<open>Error msg\<close> is
  \<open>new Error(msg)\<close>; \<open>TypeError\<close> is the engine's error on \<open>null.toString()\<close>, and
  \<open>ReferenceError x\<close> its error on the use of an undeclared identifier \<open>x\<close>.
\<close>

datatype error = NotFound string nat | Error string | TypeError | ReferenceError string

section \<open>Rows of shared/schema.ts\<close>

text \<open>
  Each record keeps the columns the storage code branches or computes on; free-text
  columns (addresses, notes, bank details) and timestamps are carried along unchanged by
  every operation modelled here and are left out.
\<close>

record user =
  u_id :: nat
  u_planId :: string
  u_invoiceQuota :: "int option"
  u_invoicesUsed :: "int option"
  u_subscriptionExpiresAt :: "int option"

record companyProfile =
  cp_id :: nat
  cp_userId :: nat
  cp_name :: string
  cp_isDefault :: "bool option"

record client =
  cl_id :: nat
  cl_userId :: nat
  cl_name :: string

record invoice =
  inv_id :: nat
  inv_userId :: nat
  inv_companyProfileId :: nat
  inv_clientId :: nat
  inv_country :: string
  inv_subtotal :: numeric
  inv_discount :: "numeric option"
  inv_tax :: "numeric option"
  inv_taxRate :: "numeric option"
  inv_total :: numeric

record invoiceItem =
  it_id :: nat
  it_invoiceId :: nat
  it_quantity :: numeric
  it_unitPrice :: numeric
  it_discount :: "numeric option"
  it_amount :: numeric

record taxRate =
  tr_id :: nat
  tr_countryCode :: string
  tr_rate :: numeric
  tr_isDefault :: "bool option"

record quotation =
  q_id :: nat
  q_userId :: nat
  q_subtotal :: numeric
  q_discount :: "numeric option"
  q_tax :: "numeric option"
  q_taxRate :: "numeric option"
  q_total :: numeric

record quotationItem =
  qi_id :: nat
  qi_quotationId :: nat
  qi_masterItemId :: "nat option"
  qi_quantity :: numeric
  qi_unitPrice :: numeric
  qi_discount :: "numeric option"
  qi_amount :: numeric

text \<open>
  Modelled from the spec: the \<open>quotations\<close> and \<open>quotation_items\<close> table declarations are
  not part of shared/schema.ts as it is in the repository; the two records above follow
  the spec (``structurally identical pattern to Invoice/InvoiceItem'') and the columns
  server/quotation-storage.ts reads and writes.
\<close>

section \<open>The relational store\<close>

text \<open>
  A table is the list of its rows. A lookup by primary key (\<open>const [row] = ...\<close>) is
  \<open>find\<close>; so is a \<open>.limit(1)\<close> query whose row is only tested for presence. Where the
  row a \<open>.limit(1)\<close> query returns is used, the query has no \<open>ORDER BY\<close> and the database
  may return any matching row: see \<open>limit_1\<close>. The \<open>serial\<close> primary keys come from
  per-table counters.

  A numeric column holds the value the code wrote to it. The rounding PostgreSQL applies
  to fit a column's declared scale is left out; the stores used as examples hold integers,
  which that rounding leaves as they are.

  The foreign keys of shared/schema.ts are not enforced by the model. The deletes modelled
  here reach the database only after the code's own check has found no invoice that
  refers to the row, and the example that moves an item moves it to an invoice that
  exists.
\<close>

record db =
  users :: "user list"
  companyProfiles :: "companyProfile list"
  clients :: "client list"
  invoices :: "invoice list"
  invoiceItems :: "invoiceItem list"
  taxRates :: "taxRate list"
  quotations :: "quotation list"
  quotationItems :: "quotationItem list"
  companyProfiles_seq :: nat

section \<open>Inputs of the storage methods\<close>

text \<open>
  \<open>InsertX\<close> objects and \<open>Partial<InsertX>\<close> patches. In a patch \<open>None\<close> is an absent key
  (\<open>undefined\<close>); for a nullable column \<open>Some None\<close> is an explicit \<open>null\<close>.
\<close>

record insertCompanyProfile =
  icp_userId :: nat
  icp_name :: string
  icp_isDefault :: "bool option"

record companyProfilePatch =
  pcp_userId :: "nat option"
  pcp_name :: "string option"
  pcp_isDefault :: "bool option option"

record invoicePatch =
  pinv_country :: "string option"
  pinv_discount :: "numeric option option"
  pinv_tax :: "numeric option option"
  pinv_taxRate :: "numeric option option"

record invoiceItemPatch =
  pit_invoiceId :: "nat option"
  pit_quantity :: "jsval option"
  pit_unitPrice :: "jsval option"
  pit_discount :: "jsval option option"

record quotationPatch =
  pq_discount :: "numeric option option"
  pq_taxRate :: "numeric option option"

record insertQuotationItem =
  iqi_quotationId :: nat
  iqi_masterItemId :: "nat option"
  iqi_quantity :: jsval
  iqi_unitPrice :: jsval
  iqi_discount :: "jsval option"

record quotationItemPatch =
  pqi_quotationId :: "nat option"
  pqi_quantity :: "jsval option"
  pqi_unitPrice :: "jsval option"
  pqi_discount :: "jsval option option"

text \<open>
  \<open>.set(patch)\<close> on one row: the keys present in the patch are written. A patch with no
  key at all, which the query builder refuses where nothing else is set, is not among the
  inputs considered.
\<close>

definition orElse :: "'a option \<Rightarrow> 'a \<Rightarrow> 'a" where
  "orElse x d = (case x of None \<Rightarrow> d | Some v \<Rightarrow> v)"

definition set_companyProfile :: "companyProfilePatch \<Rightarrow> companyProfile \<Rightarrow> companyProfile" where
  "set_companyProfile profile p =
     p\<lparr>cp_userId := orElse (pcp_userId profile) (cp_userId p),
       cp_name := orElse (pcp_name profile) (cp_name p),
       cp_isDefault := orElse (pcp_isDefault profile) (cp_isDefault p)\<rparr>"

definition set_invoice :: "invoicePatch \<Rightarrow> invoice \<Rightarrow> invoice" where
  "set_invoice patch i =
     i\<lparr>inv_country := orElse (pinv_country patch) (inv_country i),
       inv_discount := orElse (pinv_discount patch) (inv_discount i),
       inv_tax := orElse (pinv_tax patch) (inv_tax i),
       inv_taxRate := orElse (pinv_taxRate patch) (inv_taxRate i)\<rparr>"

definition set_invoiceItem :: "invoiceItemPatch \<Rightarrow> invoiceItem \<Rightarrow> invoiceItem" where
  "set_invoiceItem item i =
     i\<lparr>it_invoiceId := orElse (pit_invoiceId item) (it_invoiceId i),
       it_quantity := orElse (map_option parseFloat (pit_quantity item)) (it_quantity i),
       it_unitPrice := orElse (map_option parseFloat (pit_unitPrice item)) (it_unitPrice i),
       it_discount := orElse (map_option (map_option parseFloat) (pit_discount item)) (it_discount i)\<rparr>"

definition set_quotation :: "quotationPatch \<Rightarrow> quotation \<Rightarrow> quotation" where
  "set_quotation patch q =
     q\<lparr>q_discount := orElse (pq_discount patch) (q_discount q),
       q_taxRate := orElse (pq_taxRate patch) (q_taxRate q)\<rparr>"

definition set_quotationItem :: "quotationItemPatch \<Rightarrow> quotationItem \<Rightarrow> quotationItem" where
  "set_quotationItem item i =
     i\<lparr>qi_quotationId := orElse (pqi_quotationId item) (qi_quotationId i),
       qi_quantity := orElse (map_option parseFloat (pqi_quantity item)) (qi_quantity i),
       qi_unitPrice := orElse (map_option parseFloat (pqi_unitPrice item)) (qi_unitPrice i),
       qi_discount := orElse (map_option (map_option parseFloat) (pqi_discount item)) (qi_discount i)\<rparr>"

section \<open>DatabaseStorage (server/db-storage.ts)\<close>

text \<open>
  The class that \<open>QuotationStorage\<close> extends; the storage object of the routes is a
  \<open>QuotationStorage\<close>, so these are the methods the routes reach.
\<close>

subsection \<open>Users\<close>

definition getUserById :: "db \<Rightarrow> nat \<Rightarrow> user option" where
  "getUserById s userId = find (\<lambda>u. u_id u = userId) (users s)"

subsection \<open>Company profiles\<close>

definition getCompanyProfiles :: "db \<Rightarrow> nat \<Rightarrow> companyProfile list" where
  "getCompanyProfiles s userId = filter (\<lambda>p. cp_userId p = userId) (companyProfiles s)"

definition getCompanyProfile :: "db \<Rightarrow> nat \<Rightarrow> companyProfile option" where
  "getCompanyProfile s ident = find (\<lambda>p. cp_id p = ident) (companyProfiles s)"

definition createCompanyProfile :: "db \<Rightarrow> insertCompanyProfile \<Rightarrow> companyProfile \<times> db" where
  "createCompanyProfile s profile =
     (let existingProfiles = getCompanyProfiles s (icp_userId profile);
          isDefault = (if length existingProfiles = 0 then True
                       else icp_isDefault profile = Some True);
          s1 = (if isDefault
                then s\<lparr>companyProfiles :=
                         map (\<lambda>p. if cp_userId p = icp_userId profile \<and> cp_isDefault p = Some True
                                  then p\<lparr>cp_isDefault := Some False\<rparr> else p)
                             (companyProfiles s)\<rparr>
                else s);
          newProfile = \<lparr>cp_id = companyProfiles_seq s1, cp_userId = icp_userId profile,
                        cp_name = icp_name profile, cp_isDefault = Some isDefault\<rparr>
      in (newProfile,
          s1\<lparr>companyProfiles := companyProfiles s1 @ [newProfile],
             companyProfiles_seq := Suc (companyProfiles_seq s1)\<rparr>))"

definition updateCompanyProfile ::
  "db \<Rightarrow> nat \<Rightarrow> companyProfilePatch \<Rightarrow> (error + companyProfile) \<times> db" where
  "updateCompanyProfile s ident profile =
     (case getCompanyProfile s ident of
        None \<Rightarrow> (Inl (NotFound ''Company profile'' ident), s)
      | Some existingProfile \<Rightarrow>
          (let s1 = (if pcp_isDefault profile = Some (Some True)
                     then s\<lparr>companyProfiles :=
                              map (\<lambda>p. if cp_userId p = cp_userId existingProfile
                                          \<and> cp_isDefault p = Some True \<and> cp_id p \<noteq> ident
                                       then p\<lparr>cp_isDefault := Some False\<rparr> else p)
                                  (companyProfiles s)\<rparr>
                     else s);
               s2 = s1\<lparr>companyProfiles :=
                         map (\<lambda>p. if cp_id p = ident then set_companyProfile profile p else p)
                             (companyProfiles s1)\<rparr>
           in (Inr (set_companyProfile profile existingProfile), s2)))"

text \<open>
  \<open>.limit(1)\<close> on a query with no \<open>ORDER BY\<close>: no row if none matches, otherwise one of
  the matching rows, whichever the database returns; \<open>pick\<close> stands for its choice.
\<close>

definition limit_1 :: "nat \<Rightarrow> 'a list \<Rightarrow> 'a list" where
  "limit_1 pick rows = (if rows = [] then [] else [rows ! (pick mod length rows)])"

definition deleteCompanyProfile :: "nat \<Rightarrow> db \<Rightarrow> nat \<Rightarrow> (error + unit) \<times> db" where
  "deleteCompanyProfile pick s ident =
     (case getCompanyProfile s ident of
        None \<Rightarrow> (Inl (NotFound ''Company profile'' ident), s)
      | Some profile \<Rightarrow>
          (case find (\<lambda>i. inv_companyProfileId i = ident) (invoices s) of
             Some invoiceUsingProfile \<Rightarrow>
               (Inl (Error ''Cannot delete company profile that is used in invoices''), s)
           | None \<Rightarrow>
               (let s1 = (if cp_isDefault profile = Some True
                          then (case limit_1 pick
                                       (filter (\<lambda>p. cp_userId p = cp_userId profile \<and> cp_id p \<noteq> ident)
                                               (companyProfiles s)) of
                                  [] \<Rightarrow> s
                                | other # _ \<Rightarrow>
                                    s\<lparr>companyProfiles :=
                                        map (\<lambda>p. if cp_id p = cp_id other
                                                 then p\<lparr>cp_isDefault := Some True\<rparr> else p)
                                            (companyProfiles s)\<rparr>)
                          else s)
                in (Inr (),
                    s1\<lparr>companyProfiles := filter (\<lambda>p. cp_id p \<noteq> ident) (companyProfiles s1)\<rparr>))))"

subsection \<open>Clients\<close>



subsection \<open>Invoices and their items\<close>

definition getInvoice :: "db \<Rightarrow> nat \<Rightarrow> invoice option" where
  "getInvoice s ident = find (\<lambda>i. inv_id i = ident) (invoices s)"

definition getInvoiceItems :: "db \<Rightarrow> nat \<Rightarrow> invoiceItem list" where
  "getInvoiceItems s invoiceId = filter (\<lambda>i. it_invoiceId i = invoiceId) (invoiceItems s)"

definition getInvoiceItem :: "db \<Rightarrow> nat \<Rightarrow> invoiceItem option" where
  "getInvoiceItem s ident = find (\<lambda>i. it_id i = ident) (invoiceItems s)"

definition getDefaultTaxRate :: "db \<Rightarrow> string \<Rightarrow> taxRate option" where
  "getDefaultTaxRate s countryCode =
     find (\<lambda>t. tr_countryCode t = countryCode \<and> tr_isDefault t = Some True) (taxRates s)"

definition updateInvoice :: "db \<Rightarrow> nat \<Rightarrow> invoicePatch \<Rightarrow> invoice option \<times> db" where
  "updateInvoice s ident patch =
     (let s1 = s\<lparr>invoices := map (\<lambda>i. if inv_id i = ident then set_invoice patch i else i)
                                 (invoices s)\<rparr>
      in (getInvoice s1 ident, s1))"

definition recalculateInvoiceTotals :: "db \<Rightarrow> nat \<Rightarrow> db" where
  "recalculateInvoiceTotals s invoiceId =
     (case getInvoice s invoiceId of
        None \<Rightarrow> s
      | Some invoice \<Rightarrow>
          (let items = getInvoiceItems s invoiceId;
               subtotal = foldl (\<lambda>sum item. sum + it_amount item) 0 items;
               discountAmount = orElse (inv_discount invoice) 0;
               taxableAmount = subtotal - discountAmount;
               taxRate = orElse (inv_taxRate invoice) 0;
               taxAmount = (taxableAmount * taxRate) / 100;
               total = taxableAmount + taxAmount
           in s\<lparr>invoices :=
                  map (\<lambda>i. if inv_id i = invoiceId
                           then i\<lparr>inv_subtotal := subtotal, inv_tax := Some taxAmount,
                                  inv_total := total\<rparr>
                           else i)
                      (invoices s)\<rparr>))"

text \<open>
  \<open>updateInvoiceItem\<close> computes the amount from the patch and the existing row, writes
  \<open>{...item, amount}\<close>, that is every key of the patch and the amount, and recomputes the
  invoice of the existing row.
\<close>

definition updateInvoiceItem ::
  "db \<Rightarrow> nat \<Rightarrow> invoiceItemPatch \<Rightarrow> (error + invoiceItem) \<times> db" where
  "updateInvoiceItem s ident item =
     (case getInvoiceItem s ident of
        None \<Rightarrow> (Inl (NotFound ''Invoice item'' ident), s)
      | Some existingItem \<Rightarrow>
          (let amount =
                 (if pit_quantity item \<noteq> None \<or> pit_unitPrice item \<noteq> None
                     \<or> pit_discount item \<noteq> None
                  then (let quantity = (case pit_quantity item of
                                          Some v \<Rightarrow> parseFloat v
                                        | None \<Rightarrow> it_quantity existingItem);
                            unitPrice = (case pit_unitPrice item of
                                           Some v \<Rightarrow> parseFloat v
                                         | None \<Rightarrow> it_unitPrice existingItem);
                            discount = (case pit_discount item of
                                          Some (Some v) \<Rightarrow> parseFloat v
                                        | _ \<Rightarrow> orElse (it_discount existingItem) 0);
                            discountAmount = (unitPrice * quantity * discount) / 100
                        in (unitPrice * quantity) - discountAmount)
                  else it_amount existingItem);
               updatedItem = (set_invoiceItem item existingItem)\<lparr>it_amount := amount\<rparr>;
               s1 = s\<lparr>invoiceItems :=
                         map (\<lambda>i. if it_id i = ident
                                  then (set_invoiceItem item i)\<lparr>it_amount := amount\<rparr> else i)
                             (invoiceItems s)\<rparr>
           in (Inr updatedItem, recalculateInvoiceTotals s1 (it_invoiceId existingItem))))"

section \<open>QuotationStorage (server/quotation-storage.ts)\<close>

text \<open>\<open>a || b\<close> where \<open>a\<close> may be absent: an absent or falsy \<open>a\<close> yields \<open>b\<close>.\<close>

definition js_or :: "jsval option \<Rightarrow> jsval \<Rightarrow> jsval" where
  "js_or a b = (case a of None \<Rightarrow> b | Some v \<Rightarrow> if truthy v then v else b)"

text \<open>
  The same where \<open>b\<close> may be \<open>null\<close> too; \<open>nullable\<close> reads a patch key that is absent
  or \<open>null\<close> as no value.
\<close>

definition js_or_null :: "jsval option \<Rightarrow> jsval option \<Rightarrow> jsval option" where
  "js_or_null a b = (case a of None \<Rightarrow> b | Some v \<Rightarrow> if truthy v then Some v else b)"

definition nullable :: "'a option option \<Rightarrow> 'a option" where
  "nullable x = (case x of Some (Some v) \<Rightarrow> Some v | _ \<Rightarrow> None)"

definition getQuotation :: "db \<Rightarrow> nat \<Rightarrow> quotation option" where
  "getQuotation s ident = find (\<lambda>q. q_id q = ident) (quotations s)"

definition getQuotationItems :: "db \<Rightarrow> nat \<Rightarrow> quotationItem list" where
  "getQuotationItems s quotationId = filter (\<lambda>i. qi_quotationId i = quotationId) (quotationItems s)"

definition updateQuotation :: "db \<Rightarrow> nat \<Rightarrow> quotationPatch \<Rightarrow> quotation option \<times> db" where
  "updateQuotation s ident patch =
     (let s1 = s\<lparr>quotations := map (\<lambda>q. if q_id q = ident then set_quotation patch q else q)
                                   (quotations s)\<rparr>
      in (getQuotation s1 ident, s1))"

definition recalculateQuotationTotals :: "db \<Rightarrow> nat \<Rightarrow> (error + unit) \<times> db" where
  "recalculateQuotationTotals s quotationId =
     (let items = getQuotationItems s quotationId;
          subtotal = foldl (\<lambda>subtotal item. subtotal + qi_amount item) 0 items
      in case getQuotation s quotationId of
           None \<Rightarrow> (Inl (Error ''Quotation not found''), s)
         | Some quotation \<Rightarrow>
             (let discount = orElse (q_discount quotation) 0;
                  discountedSubtotal = subtotal * (1 - discount / 100);
                  tax = (case q_taxRate quotation of
                           None \<Rightarrow> 0
                         | Some taxRate \<Rightarrow> discountedSubtotal * (taxRate / 100));
                  total = discountedSubtotal + tax
              in (Inr (),
                  s\<lparr>quotations :=
                      map (\<lambda>q. if q_id q = quotationId
                               then q\<lparr>q_subtotal := subtotal, q_tax := Some tax, q_total := total\<rparr>
                               else q)
                          (quotations s)\<rparr>)))"

text \<open>
  \<open>createQuotationItem\<close> assigns to \<open>updatedFields\<close> right after computing the amount; no
  such identifier is declared in the method or the module, so the statement throws before
  anything is written.
\<close>

definition createQuotationItem :: "db \<Rightarrow> insertQuotationItem \<Rightarrow> (error + quotationItem) \<times> db" where
  "createQuotationItem s item =
     (let quantity = parseFloat (iqi_quantity item);
          unitPrice = parseFloat (iqi_unitPrice item);
          discount = (case iqi_discount item of
                        None \<Rightarrow> 0
                      | Some d \<Rightarrow> if truthy d then parseFloat d else 0);
          amount = quantity * unitPrice * (1 - discount / 100)
      in (Inl (ReferenceError ''updatedFields''), s))"

definition updateQuotationItem ::
  "db \<Rightarrow> nat \<Rightarrow> quotationItemPatch \<Rightarrow> (error + quotationItem) \<times> db" where
  "updateQuotationItem s ident item =
     (case find (\<lambda>i. qi_id i = ident) (quotationItems s) of
        None \<Rightarrow> (Inl (Error ''Quotation item not found''), s)
      | Some existingItem \<Rightarrow>
          if (pqi_quantity item \<noteq> None \<or> pqi_unitPrice item \<noteq> None \<or> pqi_discount item \<noteq> None)
             \<and> pqi_discount item = Some None
          then (Inl TypeError, s)
          else
            (let amount =
                   (if pqi_quantity item \<noteq> None \<or> pqi_unitPrice item \<noteq> None
                       \<or> pqi_discount item \<noteq> None
                    then (let quantity = parseFloat (js_or (pqi_quantity item)
                                                          (JString (qi_quantity existingItem)));
                              unitPrice = parseFloat (js_or (pqi_unitPrice item)
                                                           (JString (qi_unitPrice existingItem)));
                              discount = (case pqi_discount item of
                                            Some (Some v) \<Rightarrow> parseFloat v
                                          | _ \<Rightarrow> orElse (qi_discount existingItem) 0)
                          in quantity * unitPrice * (1 - discount / 100))
                    else qi_amount existingItem);
                 updatedItem = (set_quotationItem item existingItem)\<lparr>qi_amount := amount\<rparr>;
                 s1 = s\<lparr>quotationItems :=
                           map (\<lambda>i. if qi_id i = ident
                                    then (set_quotationItem item i)\<lparr>qi_amount := amount\<rparr> else i)
                               (quotationItems s)\<rparr>
             in case recalculateQuotationTotals s1 (qi_quotationId existingItem) of
                  (Inl e, s2) \<Rightarrow> (Inl e, s2)
                | (Inr u, s2) \<Rightarrow> (Inr updatedItem, s2)))"

section \<open>MemStorage (server/storage.ts; the same methods again in server/invoice-storage.ts)\<close>

text \<open>
  An item held in memory keeps the values it was given: \<open>{...existingItem, ...item, amount}\<close>
  copies the patch's fields as they are. The amount is always the string \<open>toFixed(2)\<close> made.
\<close>

record memInvoiceItem =
  mi_id :: nat
  mi_invoiceId :: nat
  mi_quantity :: jsval
  mi_unitPrice :: jsval
  mi_discount :: "jsval option"
  mi_amount :: numeric

text \<open>
  A JavaScript \<open>Map\<close> is an association list in insertion order: \<open>map.set\<close> replaces the
  value of a present key in place and appends a new key (\<open>AList.update\<close>), \<open>map.get\<close> is
  \<open>map_of\<close>, \<open>map.delete\<close> is \<open>AList.delete\<close>, \<open>map.values()\<close> is \<open>map snd\<close>.
\<close>

record mem =
  m_invoices :: "(nat \<times> invoice) list"
  m_invoiceItems :: "(nat \<times> memInvoiceItem) list"
  m_taxRates :: "(nat \<times> taxRate) list"

definition spread_invoiceItem :: "invoiceItemPatch \<Rightarrow> memInvoiceItem \<Rightarrow> memInvoiceItem" where
  "spread_invoiceItem item i =
     i\<lparr>mi_invoiceId := orElse (pit_invoiceId item) (mi_invoiceId i),
       mi_quantity := orElse (pit_quantity item) (mi_quantity i),
       mi_unitPrice := orElse (pit_unitPrice item) (mi_unitPrice i),
       mi_discount := orElse (pit_discount item) (mi_discount i)\<rparr>"

definition mem_getInvoice :: "mem \<Rightarrow> nat \<Rightarrow> invoice option" where
  "mem_getInvoice m ident = map_of (m_invoices m) ident"

definition mem_getInvoiceItems :: "mem \<Rightarrow> nat \<Rightarrow> memInvoiceItem list" where
  "mem_getInvoiceItems m invoiceId =
     filter (\<lambda>item. mi_invoiceId item = invoiceId) (map snd (m_invoiceItems m))"

definition mem_getDefaultTaxRate :: "mem \<Rightarrow> string \<Rightarrow> taxRate option" where
  "mem_getDefaultTaxRate m countryCode =
     find (\<lambda>tax. tr_countryCode tax = countryCode \<and> tr_isDefault tax = Some True)
          (map snd (m_taxRates m))"

definition mem_recalculateInvoiceTotals :: "mem \<Rightarrow> nat \<Rightarrow> (error + unit) \<times> mem" where
  "mem_recalculateInvoiceTotals m invoiceId =
     (case mem_getInvoice m invoiceId of
        None \<Rightarrow> (Inl (NotFound ''Invoice'' invoiceId), m)
      | Some invoice \<Rightarrow>
          (let items = mem_getInvoiceItems m invoiceId;
               subtotal = foldl (\<lambda>sum item. sum + mi_amount item) 0 items;
               discountValue = orElse (inv_discount invoice) 0;
               taxRateValue = (case mem_getDefaultTaxRate m (inv_country invoice) of
                                 Some taxRate \<Rightarrow> tr_rate taxRate
                               | None \<Rightarrow> 0);
               taxableAmount = subtotal - discountValue;
               taxAmount = taxableAmount * (taxRateValue / 100);
               total = taxableAmount + taxAmount;
               updatedInvoice = invoice\<lparr>inv_subtotal := toFixed2 subtotal,
                                        inv_tax := Some (toFixed2 taxAmount),
                                        inv_taxRate := Some taxRateValue,
                                        inv_total := toFixed2 total\<rparr>
           in (Inr (), m\<lparr>m_invoices := AList.update invoiceId updatedInvoice (m_invoices m)\<rparr>)))"

definition mem_updateInvoiceItem ::
  "mem \<Rightarrow> nat \<Rightarrow> invoiceItemPatch \<Rightarrow> (error + memInvoiceItem) \<times> mem" where
  "mem_updateInvoiceItem m ident item =
     (case find (\<lambda>i. mi_id i = ident) (map snd (m_invoiceItems m)) of
        None \<Rightarrow> (Inl (NotFound ''Invoice item'' ident), m)
      | Some existingItem \<Rightarrow>
          (let amount =
                 (if pit_quantity item \<noteq> None \<or> pit_unitPrice item \<noteq> None
                     \<or> pit_discount item \<noteq> None
                  then (let quantity = parseFloat (js_or (pit_quantity item) (mi_quantity existingItem));
                            unitPrice = parseFloat (js_or (pit_unitPrice item) (mi_unitPrice existingItem));
                            discount = parseFloat
                              (js_or (js_or_null (nullable (pit_discount item))
                                                 (mi_discount existingItem))
                                     (JString 0))
                        in toFixed2 (quantity * unitPrice * (1 - discount / 100)))
                  else mi_amount existingItem);
               updatedItem = (spread_invoiceItem item existingItem)\<lparr>mi_amount := amount\<rparr>;
               m1 = m\<lparr>m_invoiceItems := AList.update ident updatedItem (m_invoiceItems m)\<rparr>
           in case mem_recalculateInvoiceTotals m1 (mi_invoiceId existingItem) of
                (Inl e, m2) \<Rightarrow> (Inl e, m2)
              | (Inr u, m2) \<Rightarrow> (Inr updatedItem, m2)))"

section \<open>Quota check (routes; the storage there is the relational one)\<close>

text \<open>What the handler writes to \<open>res\<close>: \<open>res.status(code).json({ message })\<close>.\<close>

datatype response = Response nat string

text \<open>\<open>x ?? 0\<close> on a nullable integer column.\<close>

definition nullish0 :: "int option \<Rightarrow> int" where
  "nullish0 x = (case x of None \<Rightarrow> 0 | Some v \<Rightarrow> v)"

text \<open>
  \<open>checkInvoiceQuota(userId, res)\<close>; \<open>now\<close> is the value of \<open>new Date()\<close> in milliseconds.
  The result is the returned boolean and the response written, if any. A \<open>Date\<close> is
  truthy, \<open>null\<close> is not.
\<close>

definition checkInvoiceQuota :: "db \<Rightarrow> int \<Rightarrow> nat \<Rightarrow> bool \<times> response option" where
  "checkInvoiceQuota s now userId =
     (case getUserById s userId of
        None \<Rightarrow> (False, Some (Response 401 ''Unauthorized''))
      | Some user \<Rightarrow>
          if u_planId user = ''per-invoice''
             \<and> (case u_subscriptionExpiresAt user of
                  None \<Rightarrow> False
                | Some expiresAt \<Rightarrow> now > expiresAt)
          then (False, Some (Response 403 ''Your invoice bundle has expired''))
          else if u_invoiceQuota user \<noteq> Some (- 1)
                  \<and> nullish0 (u_invoicesUsed user) \<ge> nullish0 (u_invoiceQuota user)
          then (False, Some (Response 403 ''You have reached your invoice quota for this period''))
          else (True, None))"

section \<open>Properties stated, and the stores they are tried on\<close>

subsection \<open>Quota: the two reasons for a refusal, and users to try them on\<close>

definition bundle_expired :: "user \<Rightarrow> int \<Rightarrow> bool" where
  "bundle_expired u now =
     (u_planId u = ''per-invoice''
      \<and> (case u_subscriptionExpiresAt u of None \<Rightarrow> False | Some expiresAt \<Rightarrow> now > expiresAt))"

definition quota_exceeded :: "user \<Rightarrow> bool" where
  "quota_exceeded u =
     (u_invoiceQuota u \<noteq> Some (- 1) \<and> nullish0 (u_invoicesUsed u) \<ge> nullish0 (u_invoiceQuota u))"

definition empty_db :: db where
  "empty_db = \<lparr>users = [], companyProfiles = [], clients = [], invoices = [], invoiceItems = [],
               taxRates = [], quotations = [], quotationItems = [],
               companyProfiles_seq = 1\<rparr>"

definition user_free_full :: user where
  "user_free_full = \<lparr>u_id = 1, u_planId = ''free'', u_invoiceQuota = Some 10,
                      u_invoicesUsed = Some 10, u_subscriptionExpiresAt = None\<rparr>"

definition user_bundle_expired :: user where
  "user_bundle_expired = \<lparr>u_id = 2, u_planId = ''per-invoice'', u_invoiceQuota = Some 10,
                           u_invoicesUsed = Some 3, u_subscriptionExpiresAt = Some 1000\<rparr>"

definition user_unlimited :: user where
  "user_unlimited = \<lparr>u_id = 3, u_planId = ''monthly'', u_invoiceQuota = Some (- 1),
                      u_invoicesUsed = Some 500, u_subscriptionExpiresAt = None\<rparr>"

definition user_bundle_no_expiry :: user where
  "user_bundle_no_expiry = \<lparr>u_id = 4, u_planId = ''per-invoice'', u_invoiceQuota = Some 10,
                             u_invoicesUsed = Some 3, u_subscriptionExpiresAt = None\<rparr>"

definition db_users :: db where
  "db_users = empty_db\<lparr>users := [user_free_full, user_bundle_expired, user_unlimited,
                                   user_bundle_no_expiry]\<rparr>"

subsection \<open>Default company profile\<close>

text \<open>
  The invariant of the spec: every user who owns a profile owns exactly one whose
  \<open>isDefault\<close> is \<open>true\<close>. \<open>defaults_of u ps\<close> counts the default profiles of user \<open>u\<close>.
\<close>

definition one_default_per_user :: "db \<Rightarrow> bool" where
  "one_default_per_user s =
     list_all (\<lambda>p. length (filter (\<lambda>q. cp_userId q = cp_userId p \<and> cp_isDefault q = Some True)
                                    (companyProfiles s)) = 1)
              (companyProfiles s)"

definition defaults_of :: "nat \<Rightarrow> companyProfile list \<Rightarrow> nat" where
  "defaults_of u ps = length (filter (\<lambda>q. cp_userId q = u \<and> cp_isDefault q = Some True) ps)"

definition profile_acme :: companyProfile where
  "profile_acme = \<lparr>cp_id = 1, cp_userId = 1, cp_name = ''Acme'', cp_isDefault = Some True\<rparr>"

definition db_one_profile :: db where
  "db_one_profile = empty_db\<lparr>companyProfiles := [profile_acme], companyProfiles_seq := 2\<rparr>"

definition patch_not_default :: companyProfilePatch where
  "patch_not_default = \<lparr>pcp_userId = None, pcp_name = None, pcp_isDefault = Some (Some False)\<rparr>"

subsection \<open>A store with one invoice, and one with one quotation\<close>

definition client_one :: client where
  "client_one = \<lparr>cl_id = 1, cl_userId = 1, cl_name = ''Customer''\<rparr>"

definition invoice_one :: invoice where
  "invoice_one = \<lparr>inv_id = 1, inv_userId = 1, inv_companyProfileId = 1, inv_clientId = 1,
                   inv_country = ''GB'', inv_subtotal = 100, inv_discount = Some 0,
                   inv_tax = Some 10, inv_taxRate = Some 10, inv_total = 110\<rparr>"

definition item_one :: invoiceItem where
  "item_one = \<lparr>it_id = 1, it_invoiceId = 1, it_quantity = 10, it_unitPrice = 10,
                it_discount = Some 0, it_amount = 100\<rparr>"

definition db_invoiced :: db where
  "db_invoiced = empty_db\<lparr>companyProfiles := [profile_acme], clients := [client_one],
                          invoices := [invoice_one], invoiceItems := [item_one],
                          companyProfiles_seq := 2\<rparr>"

definition patch_discount_20 :: invoicePatch where
  "patch_discount_20 = \<lparr>pinv_country = None, pinv_discount = Some (Some 20), pinv_tax = None,
                         pinv_taxRate = None\<rparr>"

definition quotation_one :: quotation where
  "quotation_one = \<lparr>q_id = 1, q_userId = 1, q_subtotal = 100, q_discount = Some 0,
                     q_tax = Some 10, q_taxRate = Some 10, q_total = 110\<rparr>"

definition qitem_one :: quotationItem where
  "qitem_one = \<lparr>qi_id = 1, qi_quotationId = 1, qi_masterItemId = None, qi_quantity = 10,
                 qi_unitPrice = 10, qi_discount = Some 0, qi_amount = 100\<rparr>"

definition db_quoted :: db where
  "db_quoted = empty_db\<lparr>quotations := [quotation_one], quotationItems := [qitem_one]\<rparr>"

definition qpatch_discount_20 :: quotationPatch where
  "qpatch_discount_20 = \<lparr>pq_discount = Some (Some 20), pq_taxRate = None\<rparr>"

subsection \<open>An in-memory store\<close>

definition rate_gb :: taxRate where
  "rate_gb = \<lparr>tr_id = 1, tr_countryCode = ''GB'', tr_rate = 20, tr_isDefault = Some True\<rparr>"

definition minvoice :: invoice where
  "minvoice = \<lparr>inv_id = 1, inv_userId = 1, inv_companyProfileId = 1, inv_clientId = 1,
                inv_country = ''GB'', inv_subtotal = 20, inv_discount = Some 0,
                inv_tax = Some 4, inv_taxRate = Some 20, inv_total = 24\<rparr>"

definition mitem :: memInvoiceItem where
  "mitem = \<lparr>mi_id = 1, mi_invoiceId = 1, mi_quantity = JString 2, mi_unitPrice = JString 10,
             mi_discount = Some (JString 0), mi_amount = 20\<rparr>"

definition mem_shop :: mem where
  "mem_shop = \<lparr>m_invoices = [(1, minvoice)], m_invoiceItems = [(1, mitem)],
                m_taxRates = [(1, rate_gb)]\<rparr>"

subsection \<open>Patches of an item\<close>

text \<open>
  \<open>{quantity: v}\<close>; \<open>{quantity: 0, unitPrice: "5"}\<close> and \<open>{quantity: "2", unitPrice: "5"}\<close>
  as patches of an invoice item; the same with the stored quantity \<open>"10"\<close> as patches
  of a quotation item; and \<open>{quantity: 0, discount: null}\<close>.
\<close>

definition only_quantity :: "jsval \<Rightarrow> invoiceItemPatch" where
  "only_quantity v = \<lparr>pit_invoiceId = None, pit_quantity = Some v, pit_unitPrice = None,
                       pit_discount = None\<rparr>"

definition patch_zero_at_5 :: invoiceItemPatch where
  "patch_zero_at_5 = \<lparr>pit_invoiceId = None, pit_quantity = Some (JNumber 0),
                       pit_unitPrice = Some (JString 5), pit_discount = None\<rparr>"

definition patch_two_at_5 :: invoiceItemPatch where
  "patch_two_at_5 = \<lparr>pit_invoiceId = None, pit_quantity = Some (JString 2),
                      pit_unitPrice = Some (JString 5), pit_discount = None\<rparr>"

definition qpatch_zero_at_5 :: quotationItemPatch where
  "qpatch_zero_at_5 = \<lparr>pqi_quotationId = None, pqi_quantity = Some (JNumber 0),
                        pqi_unitPrice = Some (JString 5), pqi_discount = None\<rparr>"

definition qpatch_ten_at_5 :: quotationItemPatch where
  "qpatch_ten_at_5 = \<lparr>pqi_quotationId = None, pqi_quantity = Some (JString 10),
                       pqi_unitPrice = Some (JString 5), pqi_discount = None\<rparr>"

definition qpatch_zero_null :: quotationItemPatch where
  "qpatch_zero_null = \<lparr>pqi_quotationId = None, pqi_quantity = Some (JNumber 0),
                        pqi_unitPrice = None, pqi_discount = Some None\<rparr>"

text \<open>\<open>{invoiceId: 2}\<close> and \<open>{discount: null}\<close> as patches of an invoice item.\<close>

definition patch_move :: invoiceItemPatch where
  "patch_move = \<lparr>pit_invoiceId = Some 2, pit_quantity = None, pit_unitPrice = None,
                  pit_discount = None\<rparr>"

definition patch_discount_null :: invoiceItemPatch where
  "patch_discount_null = \<lparr>pit_invoiceId = None, pit_quantity = None, pit_unitPrice = None,
                           pit_discount = Some None\<rparr>"

subsection \<open>More stores\<close>

definition quotation_ten :: quotation where
  "quotation_ten = \<lparr>q_id = 1, q_userId = 1, q_subtotal = 0, q_discount = Some 10,
                     q_tax = None, q_taxRate = None, q_total = 0\<rparr>"

definition qitem_200 :: quotationItem where
  "qitem_200 = \<lparr>qi_id = 1, qi_quotationId = 1, qi_masterItemId = None, qi_quantity = 2,
                 qi_unitPrice = 100, qi_discount = None, qi_amount = 200\<rparr>"

definition db_quoted_ten :: db where
  "db_quoted_ten = empty_db\<lparr>quotations := [quotation_ten], quotationItems := [qitem_200]\<rparr>"

definition invoice_gb :: invoice where
  "invoice_gb = \<lparr>inv_id = 1, inv_userId = 1, inv_companyProfileId = 1, inv_clientId = 1,
                  inv_country = ''GB'', inv_subtotal = 0, inv_discount = Some 0,
                  inv_tax = Some 0, inv_taxRate = None, inv_total = 0\<rparr>"

definition db_gb :: db where
  "db_gb = empty_db\<lparr>invoices := [invoice_gb], invoiceItems := [item_one], taxRates := [rate_gb]\<rparr>"

text \<open>
  A second invoice, without items, beside the first; and an invoice whose one item is
  2 at 10 with 10 per cent off.
\<close>

definition invoice_two :: invoice where
  "invoice_two = \<lparr>inv_id = 2, inv_userId = 1, inv_companyProfileId = 1, inv_clientId = 1,
                   inv_country = ''GB'', inv_subtotal = 0, inv_discount = Some 0,
                   inv_tax = Some 0, inv_taxRate = Some 10, inv_total = 0\<rparr>"

definition db_two_invoices :: db where
  "db_two_invoices = db_invoiced\<lparr>invoices := [invoice_one, invoice_two]\<rparr>"

definition invoice_18 :: invoice where
  "invoice_18 = \<lparr>inv_id = 1, inv_userId = 1, inv_companyProfileId = 1, inv_clientId = 1,
                  inv_country = ''GB'', inv_subtotal = 18, inv_discount = Some 0,
                  inv_tax = Some 0, inv_taxRate = Some 0, inv_total = 18\<rparr>"

definition item_discounted :: invoiceItem where
  "item_discounted = \<lparr>it_id = 1, it_invoiceId = 1, it_quantity = 2, it_unitPrice = 10,
                       it_discount = Some 10, it_amount = 18\<rparr>"

definition db_discounted :: db where
  "db_discounted = empty_db\<lparr>companyProfiles := [profile_acme], clients := [client_one],
                            invoices := [invoice_18], invoiceItems := [item_discounted],
                            companyProfiles_seq := 2\<rparr>"

subsection \<open>Item amounts\<close>

text \<open>
  The item the in-memory map holds under a key, and the amount the formula of the spec
  gives for a stored row of the relational store (a \<open>null\<close> discount is no discount).
\<close>

definition mem_storedItem :: "mem \<Rightarrow> nat \<Rightarrow> memInvoiceItem option" where
  "mem_storedItem m ident = map_of (m_invoiceItems m) ident"

definition formula_amount :: "invoiceItem \<Rightarrow> numeric" where
  "formula_amount row
     = it_quantity row * it_unitPrice row * (1 - orElse (it_discount row) 0 / 100)"

subsection \<open>A second profile, and a profile to insert\<close>

definition profile_beta :: companyProfile where
  "profile_beta = \<lparr>cp_id = 2, cp_userId = 1, cp_name = ''Beta'', cp_isDefault = Some False\<rparr>"

definition db_two_profiles :: db where
  "db_two_profiles = empty_db\<lparr>companyProfiles := [profile_acme, profile_beta],
                              companyProfiles_seq := 3\<rparr>"

definition new_profile :: insertCompanyProfile where
  "new_profile = \<lparr>icp_userId = 1, icp_name = ''Gamma'', icp_isDefault = Some True\<rparr>"


section \<open>Auxiliary facts\<close>

lemma foldl_add_sum_list:
  fixes a :: rat
  shows "foldl (\<lambda>sum item. sum + f item) a xs = a + sum_list (map f xs)"
  by (induction xs arbitrary: a) (simp_all add: add.assoc)

lemma find_map_same_key:
  assumes "\<And>x. key (g x) = key x"
  shows "find (\<lambda>x. key x = k) (map (\<lambda>x. if key x = k then g x else x) xs)
         = map_option g (find (\<lambda>x. key x = k) xs)"
  using assms by (induction xs) auto

lemma snd_case_sum_pair:
  "snd (case r of (Inl e, m2) \<Rightarrow> (Inl e, m2) | (Inr u, m2) \<Rightarrow> (Inr x, m2)) = snd r"
  by (simp split: prod.splits sum.splits)

lemma floor_numeral_div: "\<lfloor>numeral a / numeral b :: rat\<rfloor> = numeral a div numeral b"
  using floor_divide_of_int_eq [of "numeral a" "numeral b", where ?'a = rat] by simp

lemma floor_one_div: "\<lfloor>1 / numeral b :: rat\<rfloor> = 1 div numeral b"
  using floor_divide_of_int_eq [of 1 "numeral b", where ?'a = rat] by simp

lemmas mem_eval = floor_one_div mem_updateInvoiceItem_def
  mem_recalculateInvoiceTotals_def mem_getInvoice_def mem_getInvoiceItems_def
  mem_getDefaultTaxRate_def spread_invoiceItem_def js_or_def js_or_null_def nullable_def
  orElse_def toFixed2_def floor_numeral_div Let_def

section \<open>Default company profile\<close>

lemma one_default_per_user_iff:
  "one_default_per_user s
   \<longleftrightarrow> (\<forall>p \<in> set (companyProfiles s). defaults_of (cp_userId p) (companyProfiles s) = 1)"
  by (simp add: one_default_per_user_def defaults_of_def list_all_iff)

lemma defaults_of_append:
  "defaults_of v (xs @ [n])
   = defaults_of v xs + (if cp_userId n = v \<and> cp_isDefault n = Some True then 1 else 0)"
  by (simp add: defaults_of_def)

lemma defaults_of_unset_same:
  "defaults_of u (map (\<lambda>p. if cp_userId p = u \<and> cp_isDefault p = Some True
                            then p\<lparr>cp_isDefault := Some False\<rparr> else p) ps) = 0"
  by (auto simp add: defaults_of_def filter_empty_conv)

lemma defaults_of_unset_other:
  assumes "v \<noteq> u"
  shows "defaults_of v (map (\<lambda>p. if cp_userId p = u \<and> cp_isDefault p = Some True
                                  then p\<lparr>cp_isDefault := Some False\<rparr> else p) ps)
         = defaults_of v ps"
  using assms by (induction ps) (auto simp add: defaults_of_def)

lemma defaults_of_unset:
  "defaults_of v (map (\<lambda>p. if cp_userId p = u \<and> cp_isDefault p = Some True
                            then p\<lparr>cp_isDefault := Some False\<rparr> else p) ps)
   = (if v = u then 0 else defaults_of v ps)"
  by (simp add: defaults_of_unset_same defaults_of_unset_other)

lemma defaults_of_cong:
  assumes "\<And>x. x \<in> set ps \<Longrightarrow> Q x \<longleftrightarrow> (cp_userId x = v \<and> cp_isDefault x = Some True)"
  shows "length (filter Q ps) = defaults_of v ps"
  unfolding defaults_of_def
  by (rule arg_cong [where f = length], rule filter_cong) (use assms in auto)

lemma only_default:
  assumes "defaults_of u ps = 1"
    and "x \<in> set ps" "cp_userId x = u" "cp_isDefault x = Some True"
    and "y \<in> set ps" "cp_userId y = u" "cp_isDefault y = Some True"
  shows "x = y"
proof -
  let ?P = "\<lambda>q. cp_userId q = u \<and> cp_isDefault q = Some True"
  from assms(1) obtain z where z: "filter ?P ps = [z]"
    by (auto simp add: defaults_of_def length_Suc_conv)
  have "x \<in> set (filter ?P ps)" "y \<in> set (filter ?P ps)"
    using assms by simp_all
  then show ?thesis unfolding z by simp
qed

lemma length_filter_eq_one:
  assumes "distinct xs" and "x \<in> set xs"
  shows "length (filter (\<lambda>y. y = x) xs) = 1"
proof -
  have "{y. y = x} \<inter> set xs = {x}" using assms(2) by auto
  then show ?thesis using assms(1) by (simp add: distinct_length_filter)
qed

text \<open>
  \<open>createCompanyProfile\<close> keeps the invariant: the first profile of a user is made the
  default, a later one that asks for it takes the default over, and any other leaves the
  defaults as they are.
\<close>

theorem createCompanyProfile_keeps_one_default:
  assumes "one_default_per_user s"
  shows "one_default_per_user (snd (createCompanyProfile s profile))"
proof (cases "length (getCompanyProfiles s (icp_userId profile)) = 0 \<or> icp_isDefault profile = Some True")
  case True
  then have eq: "companyProfiles (snd (createCompanyProfile s profile))
      = map (\<lambda>p. if cp_userId p = icp_userId profile \<and> cp_isDefault p = Some True
                  then p\<lparr>cp_isDefault := Some False\<rparr> else p) (companyProfiles s)
        @ [\<lparr>cp_id = companyProfiles_seq s, cp_userId = icp_userId profile,
            cp_name = icp_name profile, cp_isDefault = Some True\<rparr>]"
    by (auto simp add: createCompanyProfile_def Let_def)
  from assms show ?thesis
    unfolding one_default_per_user_iff eq
    by (auto simp add: defaults_of_append defaults_of_unset)
next
  case False
  then have eq: "companyProfiles (snd (createCompanyProfile s profile))
      = companyProfiles s
        @ [\<lparr>cp_id = companyProfiles_seq s, cp_userId = icp_userId profile,
            cp_name = icp_name profile, cp_isDefault = Some False\<rparr>]"
    by (auto simp add: createCompanyProfile_def Let_def)
  from False obtain p where p: "p \<in> set (companyProfiles s)" "cp_userId p = icp_userId profile"
    by (auto simp add: getCompanyProfiles_def filter_empty_conv)
  from assms p show ?thesis
    unfolding one_default_per_user_iff eq
    by (auto simp add: defaults_of_append)
qed

theorem createCompanyProfile_keeps_one_default_witness:
  "one_default_per_user db_one_profile
   \<and> one_default_per_user (snd (createCompanyProfile db_one_profile new_profile))
   \<and> companyProfiles (snd (createCompanyProfile db_one_profile new_profile))
      = [profile_acme\<lparr>cp_isDefault := Some False\<rparr>,
         \<lparr>cp_id = 2, cp_userId = 1, cp_name = ''Gamma'', cp_isDefault = Some True\<rparr>]"
proof -
  have h: "one_default_per_user db_one_profile"
    by (simp add: one_default_per_user_def db_one_profile_def empty_db_def profile_acme_def)
  have e: "companyProfiles (snd (createCompanyProfile db_one_profile new_profile))
      = [profile_acme\<lparr>cp_isDefault := Some False\<rparr>,
         \<lparr>cp_id = 2, cp_userId = 1, cp_name = ''Gamma'', cp_isDefault = Some True\<rparr>]"
    by (simp add: createCompanyProfile_def getCompanyProfiles_def db_one_profile_def
        empty_db_def profile_acme_def new_profile_def Let_def)
  from createCompanyProfile_keeps_one_default [OF h, of new_profile] h e
  show ?thesis by simp
qed

lemma limit_1_Nil: "limit_1 pick rows = [] \<longleftrightarrow> rows = []"
  by (simp add: limit_1_def)

lemma limit_1_Cons:
  assumes "limit_1 pick rows = x # rest"
  shows "x \<in> set rows"
proof -
  from assms have ne: "rows \<noteq> []" and x: "x = rows ! (pick mod length rows)"
    by (auto simp add: limit_1_def split: if_splits)
  from ne have "pick mod length rows < length rows" by simp
  then show ?thesis unfolding x by (rule nth_mem)
qed

text \<open>
  \<open>deleteCompanyProfile\<close> keeps the invariant where the profile ids are distinct (the
  primary key): deleting the default promotes another profile of the owner, whichever
  the database returns, and a refused delete changes nothing.
\<close>

theorem deleteCompanyProfile_keeps_one_default:
  assumes inv: "one_default_per_user s"
    and dist: "distinct (map cp_id (companyProfiles s))"
  shows "one_default_per_user (snd (deleteCompanyProfile pick s ident))"
proof (cases "getCompanyProfile s ident")
  case None
  then show ?thesis using inv by (simp add: deleteCompanyProfile_def)
next
  case (Some p0)
  let ?ps = "companyProfiles s"
  let ?u = "cp_userId p0"
  from Some have p0: "p0 \<in> set ?ps" "cp_id p0 = ident"
    by (auto simp add: getCompanyProfile_def find_Some_iff)
  from dist have dps: "distinct ?ps" and inj: "inj_on cp_id (set ?ps)"
    by (simp_all add: distinct_map)
  have same: "x = p0" if "x \<in> set ?ps" "cp_id x = ident" for x
    using that p0 inj by (auto dest: inj_onD)
  have one: "defaults_of (cp_userId q) ?ps = 1" if "q \<in> set ?ps" for q
    using inv that by (simp add: one_default_per_user_iff)
  show ?thesis
  proof (cases "find (\<lambda>i. inv_companyProfileId i = ident) (invoices s)")
    case (Some a)
    then show ?thesis using inv \<open>getCompanyProfile s ident = Some p0\<close>
      by (simp add: deleteCompanyProfile_def)
  next
    case None
    show ?thesis
    proof (cases "cp_isDefault p0 = Some True")
      case False
      have eq: "companyProfiles (snd (deleteCompanyProfile pick s ident))
                = filter (\<lambda>p. cp_id p \<noteq> ident) ?ps"
        using None False \<open>getCompanyProfile s ident = Some p0\<close>
        by (simp add: deleteCompanyProfile_def)
      have "defaults_of v (filter (\<lambda>p. cp_id p \<noteq> ident) ?ps) = defaults_of v ?ps" for v
        unfolding defaults_of_def [of v "filter _ _"] filter_filter
        by (rule defaults_of_cong) (use same False in auto)
      then show ?thesis
        unfolding one_default_per_user_iff eq using one by simp
    next
      case True
      show ?thesis
      proof (cases "limit_1 pick (filter (\<lambda>p. cp_userId p = ?u \<and> cp_id p \<noteq> ident) ?ps)")
        case Nil
        then have none: "filter (\<lambda>p. cp_userId p = ?u \<and> cp_id p \<noteq> ident) ?ps = []"
          by (simp add: limit_1_Nil)
        have eq: "companyProfiles (snd (deleteCompanyProfile pick s ident))
                  = filter (\<lambda>p. cp_id p \<noteq> ident) ?ps"
          using None True Nil \<open>getCompanyProfile s ident = Some p0\<close>
          by (simp add: deleteCompanyProfile_def)
        have other: "cp_userId q \<noteq> ?u" if "q \<in> set ?ps" "cp_id q \<noteq> ident" for q
          using none that by (auto simp add: filter_empty_conv)
        have "defaults_of v (filter (\<lambda>p. cp_id p \<noteq> ident) ?ps) = defaults_of v ?ps"
          if "v \<noteq> ?u" for v
          unfolding defaults_of_def [of v "filter _ _"] filter_filter
          by (rule defaults_of_cong) (use same that in auto)
        then show ?thesis
          unfolding one_default_per_user_iff eq using one other by simp
      next
        case (Cons other rest)
        let ?g = "\<lambda>p. if cp_id p = cp_id other then p\<lparr>cp_isDefault := Some True\<rparr> else p"
        have eq: "companyProfiles (snd (deleteCompanyProfile pick s ident))
                  = filter (\<lambda>p. cp_id p \<noteq> ident) (map ?g ?ps)"
          using None True Cons \<open>getCompanyProfile s ident = Some p0\<close>
          by (simp add: deleteCompanyProfile_def)
        have "other \<in> set (filter (\<lambda>p. cp_userId p = ?u \<and> cp_id p \<noteq> ident) ?ps)"
          by (rule limit_1_Cons [OF Cons])
        then have o: "other \<in> set ?ps" "cp_userId other = ?u" "cp_id other \<noteq> ident"
          by simp_all
        have same_o: "x = other" if "x \<in> set ?ps" "cp_id x = cp_id other" for x
          using that o(1) inj by (auto dest: inj_onD)
        have cnt: "defaults_of v (filter (\<lambda>p. cp_id p \<noteq> ident) (map ?g ?ps))
                   = length (filter (\<lambda>x. cp_id x \<noteq> ident \<and> cp_userId (?g x) = v
                                           \<and> cp_isDefault (?g x) = Some True) ?ps)" for v
          by (simp add: defaults_of_def filter_map o_def conj_commute conj_left_commute)
        have c_other: "defaults_of v (filter (\<lambda>p. cp_id p \<noteq> ident) (map ?g ?ps))
                       = defaults_of v ?ps" if "v \<noteq> ?u" for v
          unfolding cnt
          by (rule defaults_of_cong) (use same same_o o that in auto)
        have c_same: "defaults_of ?u (filter (\<lambda>p. cp_id p \<noteq> ident) (map ?g ?ps)) = 1"
        proof -
          have "length (filter (\<lambda>x. cp_id x \<noteq> ident \<and> cp_userId (?g x) = ?u
                                     \<and> cp_isDefault (?g x) = Some True) ?ps)
                = length (filter (\<lambda>y. y = other) ?ps)"
          proof (rule arg_cong [where f = length], rule filter_cong [OF refl])
            fix x assume x: "x \<in> set ?ps"
            show "(cp_id x \<noteq> ident \<and> cp_userId (?g x) = ?u \<and> cp_isDefault (?g x) = Some True)
                  \<longleftrightarrow> x = other"
            proof (cases "cp_id x = cp_id other")
              case True
              with x same_o o show ?thesis by auto
            next
              case False
              have "x = p0" if "cp_userId x = ?u" "cp_isDefault x = Some True"
                using only_default [OF one [OF p0(1)] x that p0(1) refl \<open>cp_isDefault p0 = Some True\<close>] .
              with False p0 show ?thesis by auto
            qed
          qed
          also have "\<dots> = 1" by (rule length_filter_eq_one [OF dps o(1)])
          finally show ?thesis unfolding cnt .
        qed
        have "defaults_of (cp_userId q') (filter (\<lambda>p. cp_id p \<noteq> ident) (map ?g ?ps)) = 1"
          if "q' \<in> set (filter (\<lambda>p. cp_id p \<noteq> ident) (map ?g ?ps))" for q'
        proof -
          from that obtain q where q: "q \<in> set ?ps" "q' = ?g q" by auto
          then have u: "cp_userId q' = cp_userId q" by simp
          show ?thesis
          proof (cases "cp_userId q = ?u")
            case True
            then show ?thesis using c_same u by simp
          next
            case False
            then show ?thesis using c_other [of "cp_userId q"] one [OF q(1)] u by simp
          qed
        qed
        then show ?thesis
          unfolding one_default_per_user_iff eq by blast
      qed
    qed
  qed
qed

theorem deleteCompanyProfile_keeps_one_default_witness:
  "one_default_per_user db_two_profiles
   \<and> distinct (map cp_id (companyProfiles db_two_profiles))
   \<and> one_default_per_user (snd (deleteCompanyProfile 0 db_two_profiles 1))
   \<and> deleteCompanyProfile 0 db_two_profiles 1
      = (Inr (), db_two_profiles\<lparr>companyProfiles := [profile_beta\<lparr>cp_isDefault := Some True\<rparr>]\<rparr>)"
proof -
  have h: "one_default_per_user db_two_profiles"
    by (simp add: one_default_per_user_def db_two_profiles_def empty_db_def profile_acme_def
        profile_beta_def)
  have d: "distinct (map cp_id (companyProfiles db_two_profiles))"
    by (simp add: db_two_profiles_def empty_db_def profile_acme_def profile_beta_def)
  have e: "deleteCompanyProfile 0 db_two_profiles 1
      = (Inr (), db_two_profiles\<lparr>companyProfiles := [profile_beta\<lparr>cp_isDefault := Some True\<rparr>]\<rparr>)"
    by (simp add: deleteCompanyProfile_def getCompanyProfile_def limit_1_def db_two_profiles_def
        empty_db_def profile_acme_def profile_beta_def)
  from deleteCompanyProfile_keeps_one_default [OF h d, of 0 1] h d e
  show ?thesis by simp
qed

text \<open>
  C1. After \<open>createCompanyProfile\<close>, \<open>updateCompanyProfile\<close> or \<open>deleteCompanyProfile\<close> on a
  store that satisfies the invariant, every user with a profile should again have exactly
  one default. \<open>updateCompanyProfile\<close> does not keep this: it clears the other defaults
  when the patch sets \<open>isDefault\<close> to \<open>true\<close>, but writes \<open>isDefault: false\<close> onto the
  default profile as it is. On a store whose only profile is the default, the owner is
  left with one profile and no default.
\<close>

theorem updateCompanyProfile_drops_only_default:
  "one_default_per_user db_one_profile
   \<and> updateCompanyProfile db_one_profile 1 patch_not_default
       = (Inr (profile_acme\<lparr>cp_isDefault := Some False\<rparr>),
          db_one_profile\<lparr>companyProfiles := [profile_acme\<lparr>cp_isDefault := Some False\<rparr>]\<rparr>)
   \<and> getCompanyProfiles (snd (updateCompanyProfile db_one_profile 1 patch_not_default)) 1
       = [profile_acme\<lparr>cp_isDefault := Some False\<rparr>]
   \<and> \<not> one_default_per_user (snd (updateCompanyProfile db_one_profile 1 patch_not_default))"
  by (simp add: one_default_per_user_def db_one_profile_def empty_db_def profile_acme_def
      patch_not_default_def updateCompanyProfile_def getCompanyProfile_def getCompanyProfiles_def
      set_companyProfile_def orElse_def)

section \<open>Deleting what an invoice refers to\<close>





section \<open>Invoice totals\<close>

lemma getInvoice_recalculate:
  assumes "getInvoice s invoiceId = Some i"
  shows "getInvoice (recalculateInvoiceTotals s invoiceId) invoiceId
         = Some (i\<lparr>inv_subtotal := sum_list (map it_amount (getInvoiceItems s invoiceId)),
                  inv_tax := Some ((sum_list (map it_amount (getInvoiceItems s invoiceId))
                                     - orElse (inv_discount i) 0) * orElse (inv_taxRate i) 0 / 100),
                  inv_total := (sum_list (map it_amount (getInvoiceItems s invoiceId))
                                  - orElse (inv_discount i) 0)
                               + (sum_list (map it_amount (getInvoiceItems s invoiceId))
                                    - orElse (inv_discount i) 0) * orElse (inv_taxRate i) 0 / 100\<rparr>)"
proof -
  let ?g = "\<lambda>j::invoice. j\<lparr>inv_subtotal := sum_list (map it_amount (getInvoiceItems s invoiceId)),
                  inv_tax := Some ((sum_list (map it_amount (getInvoiceItems s invoiceId))
                                     - orElse (inv_discount i) 0) * orElse (inv_taxRate i) 0 / 100),
                  inv_total := (sum_list (map it_amount (getInvoiceItems s invoiceId))
                                  - orElse (inv_discount i) 0)
                               + (sum_list (map it_amount (getInvoiceItems s invoiceId))
                                    - orElse (inv_discount i) 0) * orElse (inv_taxRate i) 0 / 100\<rparr>"
  have key: "\<And>x. inv_id (?g x) = inv_id x" by simp
  have "find (\<lambda>x. inv_id x = invoiceId)
          (map (\<lambda>x. if inv_id x = invoiceId then ?g x else x) (invoices s))
        = map_option ?g (find (\<lambda>x. inv_id x = invoiceId) (invoices s))"
    by (rule find_map_same_key [where key = inv_id and g = ?g, OF key])
  with assms show ?thesis
    by (simp add: recalculateInvoiceTotals_def getInvoice_def Let_def foldl_add_sum_list)
qed

lemma mem_recalculate_result:
  assumes "mem_getInvoice m invoiceId = Some i"
  shows "mem_recalculateInvoiceTotals m invoiceId
         = (Inr (),
            m\<lparr>m_invoices :=
                AList.update invoiceId
                  (i\<lparr>inv_subtotal := toFixed2 (sum_list (map mi_amount (mem_getInvoiceItems m invoiceId))),
                     inv_tax := Some (toFixed2
                        ((sum_list (map mi_amount (mem_getInvoiceItems m invoiceId))
                            - orElse (inv_discount i) 0)
                         * ((case mem_getDefaultTaxRate m (inv_country i) of
                               Some taxRate \<Rightarrow> tr_rate taxRate | None \<Rightarrow> 0) / 100))),
                     inv_taxRate := Some (case mem_getDefaultTaxRate m (inv_country i) of
                                            Some taxRate \<Rightarrow> tr_rate taxRate | None \<Rightarrow> 0),
                     inv_total := toFixed2
                        ((sum_list (map mi_amount (mem_getInvoiceItems m invoiceId))
                            - orElse (inv_discount i) 0)
                         + (sum_list (map mi_amount (mem_getInvoiceItems m invoiceId))
                              - orElse (inv_discount i) 0)
                           * ((case mem_getDefaultTaxRate m (inv_country i) of
                                 Some taxRate \<Rightarrow> tr_rate taxRate | None \<Rightarrow> 0) / 100))\<rparr>)
                  (m_invoices m)\<rparr>)"
  using assms
  by (simp add: mem_recalculateInvoiceTotals_def Let_def foldl_add_sum_list)

text \<open>
  C2. After the recomputation that an item write triggers, the stored subtotal of every
  invoice should be the sum of the amounts of its items, and tax and total what that
  subtotal, the discount and the rate give. \<open>updateInvoiceItem\<close> writes the whole patch,
  \<open>invoiceId\<close> included, onto the item, and recomputes the invoice the item belonged to
  before and no other. On a store with invoice 1 (one item of amount 100) and invoice 2
  (no item), the patch \<open>{invoiceId: 2}\<close> moves the item: invoice 1 is recomputed to 0,
  invoice 2 now has the item and still stores subtotal 0, tax 0 and total 0, where the
  recomputation of invoice 2 over the same rows gives 100, 10 and 110.
\<close>

theorem updateInvoiceItem_moved_item_stale:
  "updateInvoiceItem db_two_invoices 1 patch_move
     = (Inr (item_one\<lparr>it_invoiceId := 2\<rparr>),
        db_two_invoices
          \<lparr>invoices := [invoice_one\<lparr>inv_subtotal := 0, inv_tax := Some 0, inv_total := 0\<rparr>,
                        invoice_two],
           invoiceItems := [item_one\<lparr>it_invoiceId := 2\<rparr>]\<rparr>)
   \<and> getInvoiceItems (snd (updateInvoiceItem db_two_invoices 1 patch_move)) 2
       = [item_one\<lparr>it_invoiceId := 2\<rparr>]
   \<and> it_amount item_one = 100
   \<and> getInvoice (snd (updateInvoiceItem db_two_invoices 1 patch_move)) 2 = Some invoice_two
   \<and> inv_subtotal invoice_two = 0 \<and> inv_tax invoice_two = Some 0 \<and> inv_total invoice_two = 0
   \<and> getInvoice (recalculateInvoiceTotals (snd (updateInvoiceItem db_two_invoices 1 patch_move)) 2) 2
       = Some (invoice_two\<lparr>inv_subtotal := 100, inv_tax := Some 10, inv_total := 110\<rparr>)"
  by (simp add: updateInvoiceItem_def recalculateInvoiceTotals_def getInvoiceItem_def
      getInvoice_def getInvoiceItems_def set_invoiceItem_def orElse_def db_two_invoices_def
      db_invoiced_def empty_db_def invoice_one_def invoice_two_def item_one_def patch_move_def
      Let_def)

text \<open>
  The row of invoice 2 after the update: its stored subtotal is not the sum of the amounts
  of its items.
\<close>

theorem moved_item_not_in_subtotal:
  "(case getInvoice (snd (updateInvoiceItem db_two_invoices 1 patch_move)) 2 of
      None \<Rightarrow> False
    | Some i \<Rightarrow>
        inv_subtotal i
          \<noteq> sum_list (map it_amount
               (getInvoiceItems (snd (updateInvoiceItem db_two_invoices 1 patch_move)) 2)))"
  using updateInvoiceItem_moved_item_stale
  by (simp add: getInvoice_def getInvoiceItems_def db_two_invoices_def db_invoiced_def
      empty_db_def invoice_one_def invoice_two_def item_one_def)

section \<open>Quotation totals\<close>

lemma recalculateQuotationTotals_result:
  assumes "getQuotation s quotationId = Some q"
  shows "recalculateQuotationTotals s quotationId
         = (Inr (),
            s\<lparr>quotations :=
                map (\<lambda>x. if q_id x = quotationId
                         then x\<lparr>q_subtotal := sum_list (map qi_amount (getQuotationItems s quotationId)),
                                q_tax := Some (sum_list (map qi_amount (getQuotationItems s quotationId))
                                               * (1 - orElse (q_discount q) 0 / 100)
                                               * (orElse (q_taxRate q) 0 / 100)),
                                q_total := sum_list (map qi_amount (getQuotationItems s quotationId))
                                             * (1 - orElse (q_discount q) 0 / 100)
                                           + sum_list (map qi_amount (getQuotationItems s quotationId))
                                             * (1 - orElse (q_discount q) 0 / 100)
                                             * (orElse (q_taxRate q) 0 / 100)\<rparr>
                         else x)
                    (quotations s)\<rparr>)"
  using assms
  by (cases "q_taxRate q")
     (simp_all add: recalculateQuotationTotals_def Let_def foldl_add_sum_list orElse_def)

lemma getQuotation_recalculate:
  assumes "getQuotation s quotationId = Some q"
  shows "getQuotation (snd (recalculateQuotationTotals s quotationId)) quotationId
         = Some (q\<lparr>q_subtotal := sum_list (map qi_amount (getQuotationItems s quotationId)),
                  q_tax := Some (sum_list (map qi_amount (getQuotationItems s quotationId))
                                 * (1 - orElse (q_discount q) 0 / 100)
                                 * (orElse (q_taxRate q) 0 / 100)),
                  q_total := sum_list (map qi_amount (getQuotationItems s quotationId))
                               * (1 - orElse (q_discount q) 0 / 100)
                             + sum_list (map qi_amount (getQuotationItems s quotationId))
                               * (1 - orElse (q_discount q) 0 / 100)
                               * (orElse (q_taxRate q) 0 / 100)\<rparr>)"
proof -
  let ?g = "\<lambda>x::quotation.
      x\<lparr>q_subtotal := sum_list (map qi_amount (getQuotationItems s quotationId)),
        q_tax := Some (sum_list (map qi_amount (getQuotationItems s quotationId))
                       * (1 - orElse (q_discount q) 0 / 100)
                       * (orElse (q_taxRate q) 0 / 100)),
        q_total := sum_list (map qi_amount (getQuotationItems s quotationId))
                     * (1 - orElse (q_discount q) 0 / 100)
                   + sum_list (map qi_amount (getQuotationItems s quotationId))
                     * (1 - orElse (q_discount q) 0 / 100)
                     * (orElse (q_taxRate q) 0 / 100)\<rparr>"
  have key: "\<And>x. q_id (?g x) = q_id x" by simp
  have "find (\<lambda>x. q_id x = quotationId)
          (map (\<lambda>x. if q_id x = quotationId then ?g x else x) (quotations s))
        = map_option ?g (find (\<lambda>x. q_id x = quotationId) (quotations s))"
    by (rule find_map_same_key [where key = q_id and g = ?g, OF key])
  with assms show ?thesis
    unfolding recalculateQuotationTotals_result [OF assms]
    by (simp add: getQuotation_def)
qed

text \<open>
  C7, as amended. For a quotation in the store, the recomputation applies the document's
  discount as a percentage: discountedSubtotal = subtotal * (1 - discount / 100), tax =
  discountedSubtotal * taxRate / 100 with the quotation's own rate, total =
  discountedSubtotal + tax; \<open>null\<close> discount and rate count as 0.
\<close>

theorem quotation_discount_is_percentage:
  assumes "getQuotation s quotationId = Some q"
  shows "fst (recalculateQuotationTotals s quotationId) = Inr ()
       \<and> getQuotation (snd (recalculateQuotationTotals s quotationId)) quotationId
          = (let subtotal = sum_list (map qi_amount (getQuotationItems s quotationId));
                 discountedSubtotal = subtotal * (1 - orElse (q_discount q) 0 / 100);
                 tax = discountedSubtotal * (orElse (q_taxRate q) 0 / 100)
             in Some (q\<lparr>q_subtotal := subtotal, q_tax := Some tax,
                        q_total := discountedSubtotal + tax\<rparr>))"
  unfolding getQuotation_recalculate [OF assms] Let_def
  by (simp add: recalculateQuotationTotals_result [OF assms])

theorem quotation_discount_is_percentage_witness:
  "getQuotation db_quoted_ten 1 = Some quotation_ten
   \<and> fst (recalculateQuotationTotals db_quoted_ten 1) = Inr ()
   \<and> getQuotation (snd (recalculateQuotationTotals db_quoted_ten 1)) 1
      = Some (quotation_ten\<lparr>q_subtotal := 200, q_tax := Some 0, q_total := 180\<rparr>)"
proof -
  have g: "getQuotation db_quoted_ten 1 = Some quotation_ten"
    by (simp add: getQuotation_def db_quoted_ten_def empty_db_def quotation_ten_def)
  have items: "getQuotationItems db_quoted_ten 1 = [qitem_200]"
    by (simp add: getQuotationItems_def db_quoted_ten_def empty_db_def qitem_200_def)
  from quotation_discount_is_percentage [OF g, unfolded items Let_def] g
  show ?thesis
    by (simp add: orElse_def quotation_ten_def qitem_200_def)
qed

text \<open>
  C7 as stated fails: items worth 200 and a discount of 10 give a total of 180 (ten per
  cent off), not 200 - 10 = 190.
\<close>

theorem quotation_discount_not_absolute:
  "quotations (snd (recalculateQuotationTotals db_quoted_ten 1))
     = [quotation_ten\<lparr>q_subtotal := 200, q_tax := Some 0, q_total := 180\<rparr>]
   \<and> q_discount quotation_ten = Some 10
   \<and> (200 - 10) + 0 \<noteq> (180 :: rat)"
  by (simp add: recalculateQuotationTotals_def getQuotation_def getQuotationItems_def
      db_quoted_ten_def empty_db_def quotation_ten_def qitem_200_def orElse_def Let_def)

section \<open>Where the tax rate comes from\<close>

lemma recalculateInvoiceTotals_taxRates:
  "recalculateInvoiceTotals (s\<lparr>taxRates := rates\<rparr>) invoiceId
   = (recalculateInvoiceTotals s invoiceId)\<lparr>taxRates := rates\<rparr>"
  by (simp add: recalculateInvoiceTotals_def getInvoice_def getInvoiceItems_def Let_def
      split: option.splits)

lemma recalculateQuotationTotals_taxRates:
  "recalculateQuotationTotals (s\<lparr>taxRates := rates\<rparr>) quotationId
   = (fst (recalculateQuotationTotals s quotationId),
      (snd (recalculateQuotationTotals s quotationId))\<lparr>taxRates := rates\<rparr>)"
  by (simp add: recalculateQuotationTotals_def getQuotation_def getQuotationItems_def Let_def
      split: option.splits)

lemma mem_getInvoice_recalculate:
  assumes "mem_getInvoice m invoiceId = Some i"
  shows "mem_getInvoice (snd (mem_recalculateInvoiceTotals m invoiceId)) invoiceId
         = (let subtotal = sum_list (map mi_amount (mem_getInvoiceItems m invoiceId));
                taxRateValue = (case mem_getDefaultTaxRate m (inv_country i) of
                                  Some taxRate \<Rightarrow> tr_rate taxRate | None \<Rightarrow> 0);
                taxableAmount = subtotal - orElse (inv_discount i) 0
            in Some (i\<lparr>inv_subtotal := toFixed2 subtotal,
                       inv_tax := Some (toFixed2 (taxableAmount * (taxRateValue / 100))),
                       inv_taxRate := Some taxRateValue,
                       inv_total := toFixed2 (taxableAmount + taxableAmount * (taxRateValue / 100))\<rparr>))"
  unfolding mem_recalculate_result [OF assms]
  by (simp add: mem_getInvoice_def update_conv' Let_def)

text \<open>
  C4, as amended. The in-memory recomputation takes the rate of the default TaxRate row of
  the invoice's country (0 when there is none) and stores it on the invoice. The
  relational recomputations of invoices and of quotations take the document's own stored
  \<open>taxRate\<close> (0 when \<open>null\<close>), leave it as it is, and do not read the tax-rate table: with
  another table the result is the same.
\<close>

theorem tax_rate_source:
  "(mem_getInvoice m invoiceId = Some i \<longrightarrow>
      map_option inv_taxRate (mem_getInvoice (snd (mem_recalculateInvoiceTotals m invoiceId)) invoiceId)
        = Some (Some (case mem_getDefaultTaxRate m (inv_country i) of
                        Some taxRate \<Rightarrow> tr_rate taxRate | None \<Rightarrow> 0))
      \<and> map_option inv_tax (mem_getInvoice (snd (mem_recalculateInvoiceTotals m invoiceId)) invoiceId)
        = Some (Some (toFixed2
            ((sum_list (map mi_amount (mem_getInvoiceItems m invoiceId)) - orElse (inv_discount i) 0)
             * ((case mem_getDefaultTaxRate m (inv_country i) of
                   Some taxRate \<Rightarrow> tr_rate taxRate | None \<Rightarrow> 0) / 100)))))
   \<and> (getInvoice s invoiceId = Some j \<longrightarrow>
      map_option inv_tax (getInvoice (recalculateInvoiceTotals s invoiceId) invoiceId)
        = Some (Some ((sum_list (map it_amount (getInvoiceItems s invoiceId))
                         - orElse (inv_discount j) 0) * orElse (inv_taxRate j) 0 / 100))
      \<and> map_option inv_taxRate (getInvoice (recalculateInvoiceTotals s invoiceId) invoiceId)
        = Some (inv_taxRate j)
      \<and> recalculateInvoiceTotals (s\<lparr>taxRates := rates\<rparr>) invoiceId
        = (recalculateInvoiceTotals s invoiceId)\<lparr>taxRates := rates\<rparr>)
   \<and> (getQuotation s quotationId = Some q \<longrightarrow>
      map_option q_tax (getQuotation (snd (recalculateQuotationTotals s quotationId)) quotationId)
        = Some (Some (sum_list (map qi_amount (getQuotationItems s quotationId))
                        * (1 - orElse (q_discount q) 0 / 100) * (orElse (q_taxRate q) 0 / 100)))
      \<and> map_option q_taxRate (getQuotation (snd (recalculateQuotationTotals s quotationId)) quotationId)
        = Some (q_taxRate q)
      \<and> recalculateQuotationTotals (s\<lparr>taxRates := rates\<rparr>) quotationId
        = (fst (recalculateQuotationTotals s quotationId),
           (snd (recalculateQuotationTotals s quotationId))\<lparr>taxRates := rates\<rparr>))"
proof (intro conjI impI)
  assume a: "mem_getInvoice m invoiceId = Some i"
  show "map_option inv_taxRate (mem_getInvoice (snd (mem_recalculateInvoiceTotals m invoiceId)) invoiceId)
        = Some (Some (case mem_getDefaultTaxRate m (inv_country i) of
                        Some taxRate \<Rightarrow> tr_rate taxRate | None \<Rightarrow> 0))"
    by (simp add: mem_getInvoice_recalculate [OF a] Let_def)
  show "map_option inv_tax (mem_getInvoice (snd (mem_recalculateInvoiceTotals m invoiceId)) invoiceId)
        = Some (Some (toFixed2
            ((sum_list (map mi_amount (mem_getInvoiceItems m invoiceId)) - orElse (inv_discount i) 0)
             * ((case mem_getDefaultTaxRate m (inv_country i) of
                   Some taxRate \<Rightarrow> tr_rate taxRate | None \<Rightarrow> 0) / 100))))"
    by (simp add: mem_getInvoice_recalculate [OF a] Let_def)
next
  assume a: "getInvoice s invoiceId = Some j"
  show "map_option inv_tax (getInvoice (recalculateInvoiceTotals s invoiceId) invoiceId)
        = Some (Some ((sum_list (map it_amount (getInvoiceItems s invoiceId))
                         - orElse (inv_discount j) 0) * orElse (inv_taxRate j) 0 / 100))"
    by (simp add: getInvoice_recalculate [OF a])
  show "map_option inv_taxRate (getInvoice (recalculateInvoiceTotals s invoiceId) invoiceId)
        = Some (inv_taxRate j)"
    by (simp add: getInvoice_recalculate [OF a])
  show "recalculateInvoiceTotals (s\<lparr>taxRates := rates\<rparr>) invoiceId
        = (recalculateInvoiceTotals s invoiceId)\<lparr>taxRates := rates\<rparr>"
    by (rule recalculateInvoiceTotals_taxRates)
next
  assume a: "getQuotation s quotationId = Some q"
  show "map_option q_tax (getQuotation (snd (recalculateQuotationTotals s quotationId)) quotationId)
        = Some (Some (sum_list (map qi_amount (getQuotationItems s quotationId))
                        * (1 - orElse (q_discount q) 0 / 100) * (orElse (q_taxRate q) 0 / 100)))"
    by (simp add: getQuotation_recalculate [OF a])
  show "map_option q_taxRate (getQuotation (snd (recalculateQuotationTotals s quotationId)) quotationId)
        = Some (q_taxRate q)"
    by (simp add: getQuotation_recalculate [OF a])
  show "recalculateQuotationTotals (s\<lparr>taxRates := rates\<rparr>) quotationId
        = (fst (recalculateQuotationTotals s quotationId),
           (snd (recalculateQuotationTotals s quotationId))\<lparr>taxRates := rates\<rparr>)"
    by (rule recalculateQuotationTotals_taxRates)
qed

theorem tax_rate_source_witness:
  "mem_getInvoice mem_shop 1 = Some minvoice
   \<and> map_option inv_taxRate (mem_getInvoice (snd (mem_recalculateInvoiceTotals mem_shop 1)) 1)
      = Some (Some 20)
   \<and> map_option inv_tax (mem_getInvoice (snd (mem_recalculateInvoiceTotals mem_shop 1)) 1)
      = Some (Some 4)
   \<and> getInvoice db_gb 1 = Some invoice_gb
   \<and> map_option inv_tax (getInvoice (recalculateInvoiceTotals db_gb 1) 1) = Some (Some 0)
   \<and> map_option inv_taxRate (getInvoice (recalculateInvoiceTotals db_gb 1) 1) = Some None
   \<and> recalculateInvoiceTotals (db_gb\<lparr>taxRates := []\<rparr>) 1
      = (recalculateInvoiceTotals db_gb 1)\<lparr>taxRates := []\<rparr>
   \<and> getQuotation db_quoted 1 = Some quotation_one
   \<and> map_option q_tax (getQuotation (snd (recalculateQuotationTotals db_quoted 1)) 1)
      = Some (Some 10)
   \<and> map_option q_taxRate (getQuotation (snd (recalculateQuotationTotals db_quoted 1)) 1)
      = Some (Some 10)"
proof -
  have g1: "mem_getInvoice mem_shop 1 = Some minvoice"
    by (simp add: mem_getInvoice_def mem_shop_def)
  have g2: "getInvoice db_gb 1 = Some invoice_gb"
    by (simp add: getInvoice_def db_gb_def empty_db_def invoice_gb_def)
  have g3: "getQuotation db_quoted 1 = Some quotation_one"
    by (simp add: getQuotation_def db_quoted_def empty_db_def quotation_one_def)
  have i1: "mem_getInvoiceItems mem_shop 1 = [mitem]"
    by (simp add: mem_getInvoiceItems_def mem_shop_def mitem_def)
  have i2: "getInvoiceItems db_gb 1 = [item_one]"
    by (simp add: getInvoiceItems_def db_gb_def empty_db_def item_one_def)
  have i3: "getQuotationItems db_quoted 1 = [qitem_one]"
    by (simp add: getQuotationItems_def db_quoted_def empty_db_def qitem_one_def)
  have r: "mem_getDefaultTaxRate mem_shop (inv_country minvoice) = Some rate_gb"
    by (simp add: mem_getDefaultTaxRate_def mem_shop_def minvoice_def rate_gb_def)
  note t1 = tax_rate_source [where m = mem_shop and invoiceId = 1 and i = minvoice and s = db_gb
      and j = invoice_gb and rates = "[]", unfolded i1 i2 r]
  note t2 = tax_rate_source [where s = db_quoted and quotationId = 1 and q = quotation_one,
      unfolded i3]
  from t1 g1 g2 have a: "map_option inv_taxRate (mem_getInvoice (snd (mem_recalculateInvoiceTotals mem_shop 1)) 1)
      = Some (Some 20)
   \<and> map_option inv_tax (mem_getInvoice (snd (mem_recalculateInvoiceTotals mem_shop 1)) 1)
      = Some (Some 4)
   \<and> map_option inv_tax (getInvoice (recalculateInvoiceTotals db_gb 1) 1) = Some (Some 0)
   \<and> map_option inv_taxRate (getInvoice (recalculateInvoiceTotals db_gb 1) 1) = Some None
   \<and> recalculateInvoiceTotals (db_gb\<lparr>taxRates := []\<rparr>) 1
      = (recalculateInvoiceTotals db_gb 1)\<lparr>taxRates := []\<rparr>"
    by (simp add: orElse_def minvoice_def mitem_def rate_gb_def invoice_gb_def item_one_def
        toFixed2_def floor_numeral_div)
  from t2 g3 have b: "map_option q_tax (getQuotation (snd (recalculateQuotationTotals db_quoted 1)) 1)
      = Some (Some 10)
   \<and> map_option q_taxRate (getQuotation (snd (recalculateQuotationTotals db_quoted 1)) 1)
      = Some (Some 10)"
    by (simp add: orElse_def quotation_one_def qitem_one_def)
  from a b g1 g2 g3 show ?thesis by simp
qed

text \<open>
  C4 as stated fails in the relational store: the default rate for GB is 20, the invoice
  is for GB and has no rate of its own, and the tax written on items worth 100 is 0.
\<close>

theorem db_ignores_default_tax_rate:
  "getDefaultTaxRate db_gb ''GB'' = Some rate_gb
   \<and> tr_rate rate_gb = 20
   \<and> inv_country invoice_gb = ''GB''
   \<and> recalculateInvoiceTotals db_gb 1
      = db_gb\<lparr>invoices := [invoice_gb\<lparr>inv_subtotal := 100, inv_tax := Some 0, inv_total := 100\<rparr>]\<rparr>
   \<and> (100 - 0) * 20 / 100 \<noteq> (0 :: rat)"
  by (simp add: getDefaultTaxRate_def recalculateInvoiceTotals_def getInvoice_def
      getInvoiceItems_def db_gb_def empty_db_def invoice_gb_def item_one_def rate_gb_def
      orElse_def Let_def)

section \<open>Updating a document\<close>

lemmas c8_defs = db_invoiced_def empty_db_def invoice_one_def item_one_def patch_discount_20_def
      updateInvoice_def recalculateInvoiceTotals_def getInvoice_def getInvoiceItems_def
      set_invoice_def orElse_def db_quoted_def quotation_one_def qitem_one_def
      qpatch_discount_20_def updateQuotation_def recalculateQuotationTotals_def
      getQuotation_def getQuotationItems_def set_quotation_def

text \<open>
  C8. A write that changes an input of the derived fields should rewrite them. On an
  invoice with items worth 100, discount 0 and rate 10 (stored tax 10, total 110),
  \<open>updateInvoice\<close> with \<open>{discount: 20}\<close> writes the discount and nothing else: the stored
  total stays 110, where the recomputation over the same rows gives tax 8 and total 88.
  \<open>updateQuotation\<close> does the same.
\<close>

theorem updateInvoice_leaves_totals_stale:
  "recalculateInvoiceTotals db_invoiced 1 = db_invoiced
   \<and> updateInvoice db_invoiced 1 patch_discount_20
       = (Some (invoice_one\<lparr>inv_discount := Some 20\<rparr>),
          db_invoiced\<lparr>invoices := [invoice_one\<lparr>inv_discount := Some 20\<rparr>]\<rparr>)
   \<and> invoices (recalculateInvoiceTotals (snd (updateInvoice db_invoiced 1 patch_discount_20)) 1)
       = [invoice_one\<lparr>inv_discount := Some 20, inv_tax := Some 8, inv_total := 88\<rparr>]
   \<and> updateQuotation db_quoted 1 qpatch_discount_20
       = (Some (quotation_one\<lparr>q_discount := Some 20\<rparr>),
          db_quoted\<lparr>quotations := [quotation_one\<lparr>q_discount := Some 20\<rparr>]\<rparr>)
   \<and> quotations (snd (recalculateQuotationTotals (snd (updateQuotation db_quoted 1 qpatch_discount_20)) 1))
       = [quotation_one\<lparr>q_discount := Some 20, q_tax := Some 8, q_total := 88\<rparr>]"
  by (simp add: c8_defs)

section \<open>Item amounts\<close>

lemma mem_storedItem_update:
  assumes "find (\<lambda>i. mi_id i = ident) (map snd (m_invoiceItems m)) = Some e"
  shows "mem_storedItem (snd (mem_updateInvoiceItem m ident item)) ident
         = Some ((spread_invoiceItem item e)
              \<lparr>mi_amount :=
                 (if pit_quantity item \<noteq> None \<or> pit_unitPrice item \<noteq> None \<or> pit_discount item \<noteq> None
                  then toFixed2 (parseFloat (js_or (pit_quantity item) (mi_quantity e))
                                 * parseFloat (js_or (pit_unitPrice item) (mi_unitPrice e))
                                 * (1 - parseFloat (js_or (js_or_null (nullable (pit_discount item))
                                                                      (mi_discount e))
                                                          (JString 0)) / 100))
                  else mi_amount e)\<rparr>)"
proof -
  have rec: "\<And>m1 k. m_invoiceItems (snd (mem_recalculateInvoiceTotals m1 k)) = m_invoiceItems m1"
    by (simp add: mem_recalculateInvoiceTotals_def Let_def split: option.splits)
  show ?thesis
    unfolding mem_storedItem_def mem_updateInvoiceItem_def assms option.case Let_def
      snd_case_sum_pair rec
    by (simp add: update_conv')
qed

lemma find_set_quotationItem:
  "find (\<lambda>x. qi_id x = ident)
        (map (\<lambda>i. if qi_id i = ident then (set_quotationItem item i)\<lparr>qi_amount := a\<rparr> else i) xs)
   = map_option (\<lambda>i. (set_quotationItem item i)\<lparr>qi_amount := a\<rparr>)
                (find (\<lambda>x. qi_id x = ident) xs)"
  by (rule find_map_same_key [where key = qi_id]) (simp add: set_quotationItem_def)

lemma quotationItems_recalculate:
  "quotationItems (snd (recalculateQuotationTotals s1 k)) = quotationItems s1"
  by (simp add: recalculateQuotationTotals_def Let_def split: option.splits)

lemma find_quotationItem_update:
  assumes "find (\<lambda>i. qi_id i = ident) (quotationItems s) = Some e" and "pqi_discount item \<noteq> Some None"
  shows "find (\<lambda>i. qi_id i = ident) (quotationItems (snd (updateQuotationItem s ident item)))
         = Some ((set_quotationItem item e)
              \<lparr>qi_amount :=
                 (if pqi_quantity item \<noteq> None \<or> pqi_unitPrice item \<noteq> None \<or> pqi_discount item \<noteq> None
                  then parseFloat (js_or (pqi_quantity item) (JString (qi_quantity e)))
                       * parseFloat (js_or (pqi_unitPrice item) (JString (qi_unitPrice e)))
                       * (1 - (case pqi_discount item of
                                 Some (Some v) \<Rightarrow> parseFloat v
                               | _ \<Rightarrow> orElse (qi_discount e) 0) / 100)
                  else qi_amount e)\<rparr>)"
  using assms(2)
  by (simp add: updateQuotationItem_def assms(1) Let_def snd_case_sum_pair
      quotationItems_recalculate find_set_quotationItem)

text \<open>
  C3. The stored amount of an item should be quantity * unitPrice * (1 - discount / 100)
  of the stored row. \<open>DatabaseStorage.updateInvoiceItem\<close>, the method behind
  \<open>PUT /api/invoices/:invoiceId/items/:itemId\<close>, takes a \<open>null\<close> discount in the patch as
  no value when it computes the amount, and falls back to the discount the item had, but
  writes the \<open>null\<close> to the row. On an item of 2 at 10 with 10 per cent off (amount 18)
  the patch \<open>{discount: null}\<close> leaves a row with no discount and the amount 18, where
  the formula gives 20 for that row. The method itself reads a stored \<open>null\<close> discount as
  0: the next patch that restates the quantity stores the amount 20. All values here are
  integers, on which the code's doubles and the column's two decimals are exact.
\<close>

theorem null_discount_keeps_discounted_amount:
  "getInvoiceItem db_discounted 1 = Some item_discounted
   \<and> it_amount item_discounted = 18 \<and> formula_amount item_discounted = 18
   \<and> updateInvoiceItem db_discounted 1 patch_discount_null
       = (Inr (item_discounted\<lparr>it_discount := None\<rparr>),
          db_discounted\<lparr>invoiceItems := [item_discounted\<lparr>it_discount := None\<rparr>]\<rparr>)
   \<and> it_amount (item_discounted\<lparr>it_discount := None\<rparr>) = 18
   \<and> formula_amount (item_discounted\<lparr>it_discount := None\<rparr>) = 20
   \<and> fst (updateInvoiceItem (snd (updateInvoiceItem db_discounted 1 patch_discount_null)) 1
             (only_quantity (JString 2)))
       = Inr (item_discounted\<lparr>it_discount := None, it_amount := 20\<rparr>)"
  by (simp add: updateInvoiceItem_def recalculateInvoiceTotals_def getInvoiceItem_def
      getInvoice_def getInvoiceItems_def set_invoiceItem_def orElse_def formula_amount_def
      db_discounted_def empty_db_def invoice_18_def item_discounted_def
      patch_discount_null_def only_quantity_def Let_def)

text \<open>
  The row the store then holds: no discount, amount 18, and 20 by the formula.
\<close>

theorem null_discount_amount_differs:
  "(case getInvoiceItem (snd (updateInvoiceItem db_discounted 1 patch_discount_null)) 1 of
      None \<Rightarrow> False
    | Some row \<Rightarrow> it_discount row = None \<and> it_amount row = 18 \<and> formula_amount row = 20)"
  using null_discount_keeps_discounted_amount
  by (simp add: getInvoiceItem_def db_discounted_def empty_db_def item_discounted_def)

text \<open>
  \<open>createQuotationItem\<close> never stores an item.
\<close>

theorem createQuotationItem_throws:
  "createQuotationItem s item = (Inl (ReferenceError ''updatedFields''), s)"
  by (simp add: createQuotationItem_def Let_def)

text \<open>
  C10, as amended. \<open>MemStorage.updateInvoiceItem\<close>, for an item in the store and any
  patch: if the patch carries the number 0 as quantity, as unit price or as discount, the
  0 is stored in that field, and the amount stored is the one the same call stores when
  the patch carries the item's existing value of that field instead; if it carries the
  string \<open>"0"\<close> as quantity or as unit price, the amount stored is 0.
  \<open>QuotationStorage.updateQuotationItem\<close>, for an item in the store: a patch whose
  discount is \<open>null\<close> throws a TypeError and nothing is written; for any other patch the
  same holds as above for quantity and unit price.
\<close>

theorem zero_patch_fallback:
  "(find (\<lambda>i. mi_id i = ident) (map snd (m_invoiceItems m)) = Some e \<longrightarrow>
      (pit_quantity item = Some (JNumber 0) \<longrightarrow>
         map_option mi_quantity (mem_storedItem (snd (mem_updateInvoiceItem m ident item)) ident)
           = Some (JNumber 0)
         \<and> map_option mi_amount (mem_storedItem (snd (mem_updateInvoiceItem m ident item)) ident)
           = map_option mi_amount
               (mem_storedItem
                  (snd (mem_updateInvoiceItem m ident (item\<lparr>pit_quantity := Some (mi_quantity e)\<rparr>)))
                  ident))
      \<and> (pit_unitPrice item = Some (JNumber 0) \<longrightarrow>
         map_option mi_unitPrice (mem_storedItem (snd (mem_updateInvoiceItem m ident item)) ident)
           = Some (JNumber 0)
         \<and> map_option mi_amount (mem_storedItem (snd (mem_updateInvoiceItem m ident item)) ident)
           = map_option mi_amount
               (mem_storedItem
                  (snd (mem_updateInvoiceItem m ident (item\<lparr>pit_unitPrice := Some (mi_unitPrice e)\<rparr>)))
                  ident))
      \<and> (pit_discount item = Some (Some (JNumber 0)) \<longrightarrow>
         map_option mi_discount (mem_storedItem (snd (mem_updateInvoiceItem m ident item)) ident)
           = Some (Some (JNumber 0))
         \<and> map_option mi_amount (mem_storedItem (snd (mem_updateInvoiceItem m ident item)) ident)
           = map_option mi_amount
               (mem_storedItem
                  (snd (mem_updateInvoiceItem m ident (item\<lparr>pit_discount := Some (mi_discount e)\<rparr>)))
                  ident))
      \<and> (pit_quantity item = Some (JString 0) \<or> pit_unitPrice item = Some (JString 0) \<longrightarrow>
         map_option mi_amount (mem_storedItem (snd (mem_updateInvoiceItem m ident item)) ident)
           = Some 0))
   \<and> (find (\<lambda>i. qi_id i = ident) (quotationItems s) = Some qe \<longrightarrow>
      (pqi_discount qitem = Some None \<longrightarrow>
         updateQuotationItem s ident qitem = (Inl TypeError, s))
      \<and> (pqi_discount qitem \<noteq> Some None \<and> pqi_quantity qitem = Some (JNumber 0) \<longrightarrow>
         map_option qi_quantity
             (find (\<lambda>i. qi_id i = ident) (quotationItems (snd (updateQuotationItem s ident qitem))))
           = Some 0
         \<and> map_option qi_amount
             (find (\<lambda>i. qi_id i = ident) (quotationItems (snd (updateQuotationItem s ident qitem))))
           = map_option qi_amount
               (find (\<lambda>i. qi_id i = ident)
                  (quotationItems (snd (updateQuotationItem s ident
                     (qitem\<lparr>pqi_quantity := Some (JString (qi_quantity qe))\<rparr>))))))
      \<and> (pqi_discount qitem \<noteq> Some None \<and> pqi_unitPrice qitem = Some (JNumber 0) \<longrightarrow>
         map_option qi_unitPrice
             (find (\<lambda>i. qi_id i = ident) (quotationItems (snd (updateQuotationItem s ident qitem))))
           = Some 0
         \<and> map_option qi_amount
             (find (\<lambda>i. qi_id i = ident) (quotationItems (snd (updateQuotationItem s ident qitem))))
           = map_option qi_amount
               (find (\<lambda>i. qi_id i = ident)
                  (quotationItems (snd (updateQuotationItem s ident
                     (qitem\<lparr>pqi_unitPrice := Some (JString (qi_unitPrice qe))\<rparr>))))))
      \<and> (pqi_discount qitem \<noteq> Some None
           \<and> (pqi_quantity qitem = Some (JString 0) \<or> pqi_unitPrice qitem = Some (JString 0)) \<longrightarrow>
         map_option qi_amount
             (find (\<lambda>i. qi_id i = ident) (quotationItems (snd (updateQuotationItem s ident qitem))))
           = Some 0))"
proof (intro conjI impI)
  assume a: "find (\<lambda>i. mi_id i = ident) (map snd (m_invoiceItems m)) = Some e"
  note u = mem_storedItem_update [OF a]
  {
    assume z: "pit_quantity item = Some (JNumber 0)"
    show "map_option mi_quantity (mem_storedItem (snd (mem_updateInvoiceItem m ident item)) ident)
          = Some (JNumber 0)"
      unfolding u using z by (simp add: spread_invoiceItem_def orElse_def)
    show "map_option mi_amount (mem_storedItem (snd (mem_updateInvoiceItem m ident item)) ident)
          = map_option mi_amount
              (mem_storedItem
                 (snd (mem_updateInvoiceItem m ident (item\<lparr>pit_quantity := Some (mi_quantity e)\<rparr>)))
                 ident)"
      unfolding u using z by (simp add: js_or_def)
  }
  {
    assume z: "pit_unitPrice item = Some (JNumber 0)"
    show "map_option mi_unitPrice (mem_storedItem (snd (mem_updateInvoiceItem m ident item)) ident)
          = Some (JNumber 0)"
      unfolding u using z by (simp add: spread_invoiceItem_def orElse_def)
    show "map_option mi_amount (mem_storedItem (snd (mem_updateInvoiceItem m ident item)) ident)
          = map_option mi_amount
              (mem_storedItem
                 (snd (mem_updateInvoiceItem m ident (item\<lparr>pit_unitPrice := Some (mi_unitPrice e)\<rparr>)))
                 ident)"
      unfolding u using z by (simp add: js_or_def)
  }
  {
    assume z: "pit_discount item = Some (Some (JNumber 0))"
    show "map_option mi_discount (mem_storedItem (snd (mem_updateInvoiceItem m ident item)) ident)
          = Some (Some (JNumber 0))"
      unfolding u using z by (simp add: spread_invoiceItem_def orElse_def)
    have d: "js_or_null (nullable (Some (Some (JNumber 0)))) (mi_discount e)
             = js_or_null (nullable (Some (mi_discount e))) (mi_discount e)"
      by (cases "mi_discount e") (simp_all add: js_or_null_def nullable_def)
    show "map_option mi_amount (mem_storedItem (snd (mem_updateInvoiceItem m ident item)) ident)
          = map_option mi_amount
              (mem_storedItem
                 (snd (mem_updateInvoiceItem m ident (item\<lparr>pit_discount := Some (mi_discount e)\<rparr>)))
                 ident)"
      unfolding u using z by (simp add: d)
  }
  {
    assume z: "pit_quantity item = Some (JString 0) \<or> pit_unitPrice item = Some (JString 0)"
    show "map_option mi_amount (mem_storedItem (snd (mem_updateInvoiceItem m ident item)) ident)
          = Some 0"
      unfolding u using z by (auto simp add: js_or_def toFixed2_def floor_one_div)
  }
next
  assume a: "find (\<lambda>i. qi_id i = ident) (quotationItems s) = Some qe"
  {
    assume "pqi_discount qitem = Some None"
    then show "updateQuotationItem s ident qitem = (Inl TypeError, s)"
      by (simp add: updateQuotationItem_def a)
  }
  {
    assume z: "pqi_discount qitem \<noteq> Some None \<and> pqi_quantity qitem = Some (JNumber 0)"
    then have n: "pqi_discount qitem \<noteq> Some None"
      and n': "pqi_discount (qitem\<lparr>pqi_quantity := Some (JString (qi_quantity qe))\<rparr>) \<noteq> Some None"
      by simp_all
    show "map_option qi_quantity
            (find (\<lambda>i. qi_id i = ident) (quotationItems (snd (updateQuotationItem s ident qitem))))
          = Some 0"
      unfolding find_quotationItem_update [OF a n] using z
      by (simp add: set_quotationItem_def orElse_def)
    show "map_option qi_amount
            (find (\<lambda>i. qi_id i = ident) (quotationItems (snd (updateQuotationItem s ident qitem))))
          = map_option qi_amount
              (find (\<lambda>i. qi_id i = ident)
                 (quotationItems (snd (updateQuotationItem s ident
                    (qitem\<lparr>pqi_quantity := Some (JString (qi_quantity qe))\<rparr>)))))"
      unfolding find_quotationItem_update [OF a n] find_quotationItem_update [OF a n'] using z
      by (simp add: js_or_def)
  }
  {
    assume z: "pqi_discount qitem \<noteq> Some None \<and> pqi_unitPrice qitem = Some (JNumber 0)"
    then have n: "pqi_discount qitem \<noteq> Some None"
      and n': "pqi_discount (qitem\<lparr>pqi_unitPrice := Some (JString (qi_unitPrice qe))\<rparr>) \<noteq> Some None"
      by simp_all
    show "map_option qi_unitPrice
            (find (\<lambda>i. qi_id i = ident) (quotationItems (snd (updateQuotationItem s ident qitem))))
          = Some 0"
      unfolding find_quotationItem_update [OF a n] using z
      by (simp add: set_quotationItem_def orElse_def)
    show "map_option qi_amount
            (find (\<lambda>i. qi_id i = ident) (quotationItems (snd (updateQuotationItem s ident qitem))))
          = map_option qi_amount
              (find (\<lambda>i. qi_id i = ident)
                 (quotationItems (snd (updateQuotationItem s ident
                    (qitem\<lparr>pqi_unitPrice := Some (JString (qi_unitPrice qe))\<rparr>)))))"
      unfolding find_quotationItem_update [OF a n] find_quotationItem_update [OF a n'] using z
      by (simp add: js_or_def)
  }
  {
    assume z: "pqi_discount qitem \<noteq> Some None
               \<and> (pqi_quantity qitem = Some (JString 0) \<or> pqi_unitPrice qitem = Some (JString 0))"
    then have n: "pqi_discount qitem \<noteq> Some None" by simp
    show "map_option qi_amount
            (find (\<lambda>i. qi_id i = ident) (quotationItems (snd (updateQuotationItem s ident qitem))))
          = Some 0"
      unfolding find_quotationItem_update [OF a n] using z
      by (auto simp add: js_or_def)
  }
qed

text \<open>
  The patch \<open>{quantity: 0, unitPrice: "5"}\<close> on an in-memory item of 2 at 10 stores
  quantity 0 and the amount 10.00, that of \<open>{quantity: "2", unitPrice: "5"}\<close>; on a
  quotation item of 10 at 10 it stores quantity 0 and the amount 50; and
  \<open>{quantity: 0, discount: null}\<close> on the quotation item throws.
\<close>

theorem zero_patch_fallback_witness:
  "find (\<lambda>i. mi_id i = 1) (map snd (m_invoiceItems mem_shop)) = Some mitem
   \<and> pit_quantity patch_zero_at_5 = Some (JNumber 0)
   \<and> patch_zero_at_5\<lparr>pit_quantity := Some (mi_quantity mitem)\<rparr> = patch_two_at_5
   \<and> mem_storedItem (snd (mem_updateInvoiceItem mem_shop 1 patch_two_at_5)) 1
      = Some (mitem\<lparr>mi_unitPrice := JString 5, mi_amount := 10\<rparr>)
   \<and> map_option mi_quantity (mem_storedItem (snd (mem_updateInvoiceItem mem_shop 1 patch_zero_at_5)) 1)
      = Some (JNumber 0)
   \<and> map_option mi_amount (mem_storedItem (snd (mem_updateInvoiceItem mem_shop 1 patch_zero_at_5)) 1)
      = Some 10
   \<and> find (\<lambda>i. qi_id i = 1) (quotationItems db_quoted) = Some qitem_one
   \<and> pqi_discount qpatch_zero_at_5 \<noteq> Some None
   \<and> pqi_quantity qpatch_zero_at_5 = Some (JNumber 0)
   \<and> qpatch_zero_at_5\<lparr>pqi_quantity := Some (JString (qi_quantity qitem_one))\<rparr> = qpatch_ten_at_5
   \<and> find (\<lambda>i. qi_id i = 1) (quotationItems (snd (updateQuotationItem db_quoted 1 qpatch_ten_at_5)))
      = Some (qitem_one\<lparr>qi_unitPrice := 5, qi_amount := 50\<rparr>)
   \<and> map_option qi_quantity
        (find (\<lambda>i. qi_id i = 1) (quotationItems (snd (updateQuotationItem db_quoted 1 qpatch_zero_at_5))))
      = Some 0
   \<and> map_option qi_amount
        (find (\<lambda>i. qi_id i = 1) (quotationItems (snd (updateQuotationItem db_quoted 1 qpatch_zero_at_5))))
      = Some 50
   \<and> pqi_discount qpatch_zero_null = Some None
   \<and> updateQuotationItem db_quoted 1 qpatch_zero_null = (Inl TypeError, db_quoted)"
proof -
  have g1: "find (\<lambda>i. mi_id i = 1) (map snd (m_invoiceItems mem_shop)) = Some mitem"
    by (simp add: mem_shop_def mitem_def)
  have g2: "find (\<lambda>i. qi_id i = 1) (quotationItems db_quoted) = Some qitem_one"
    by (simp add: db_quoted_def empty_db_def qitem_one_def)
  have p1: "pit_quantity patch_zero_at_5 = Some (JNumber 0)"
    "patch_zero_at_5\<lparr>pit_quantity := Some (mi_quantity mitem)\<rparr> = patch_two_at_5"
    by (simp_all add: patch_zero_at_5_def patch_two_at_5_def mitem_def)
  have p2: "pqi_discount qpatch_zero_at_5 \<noteq> Some None"
    "pqi_quantity qpatch_zero_at_5 = Some (JNumber 0)"
    "qpatch_zero_at_5\<lparr>pqi_quantity := Some (JString (qi_quantity qitem_one))\<rparr> = qpatch_ten_at_5"
    by (simp_all add: qpatch_zero_at_5_def qpatch_ten_at_5_def qitem_one_def)
  have p3: "pqi_discount qpatch_zero_null = Some None"
    by (simp add: qpatch_zero_null_def)
  have e1: "mem_storedItem (snd (mem_updateInvoiceItem mem_shop 1 patch_two_at_5)) 1
      = Some (mitem\<lparr>mi_unitPrice := JString 5, mi_amount := 10\<rparr>)"
    unfolding mem_storedItem_update [OF g1]
    by (simp add: patch_two_at_5_def mitem_def spread_invoiceItem_def orElse_def js_or_def
        js_or_null_def nullable_def toFixed2_def floor_numeral_div)
  have e2: "find (\<lambda>i. qi_id i = 1)
        (quotationItems (snd (updateQuotationItem db_quoted 1 qpatch_ten_at_5)))
      = Some (qitem_one\<lparr>qi_unitPrice := 5, qi_amount := 50\<rparr>)"
    by (simp add: updateQuotationItem_def recalculateQuotationTotals_def getQuotation_def
        getQuotationItems_def set_quotationItem_def orElse_def js_or_def db_quoted_def
        empty_db_def quotation_one_def qitem_one_def qpatch_ten_at_5_def Let_def)
  note t1 = zero_patch_fallback [where m = mem_shop and ident = 1 and e = mitem
      and item = patch_zero_at_5 and s = db_quoted and qe = qitem_one
      and qitem = qpatch_zero_at_5, unfolded p1(2) p2(3) e1 e2]
  note t2 = zero_patch_fallback [where s = db_quoted and ident = 1 and qe = qitem_one
      and qitem = qpatch_zero_null]
  from t1 g1 g2 p1 p2 have a:
    "map_option mi_quantity (mem_storedItem (snd (mem_updateInvoiceItem mem_shop 1 patch_zero_at_5)) 1)
      = Some (JNumber 0)
     \<and> map_option mi_amount (mem_storedItem (snd (mem_updateInvoiceItem mem_shop 1 patch_zero_at_5)) 1)
      = Some 10
     \<and> map_option qi_quantity
        (find (\<lambda>i. qi_id i = 1) (quotationItems (snd (updateQuotationItem db_quoted 1 qpatch_zero_at_5))))
      = Some 0
     \<and> map_option qi_amount
        (find (\<lambda>i. qi_id i = 1) (quotationItems (snd (updateQuotationItem db_quoted 1 qpatch_zero_at_5))))
      = Some 50"
    by simp
  from t2 g2 p3 have b: "updateQuotationItem db_quoted 1 qpatch_zero_null = (Inl TypeError, db_quoted)"
    by simp
  from a b g1 g2 p1 p2 p3 e1 e2 show ?thesis by simp
qed

text \<open>
  C10 as stated fails for the string: \<open>{quantity: "0"}\<close> on an item of amount 20.00
  stores the amount 0.00.
\<close>

theorem mem_zero_string_is_used:
  "mem_updateInvoiceItem mem_shop 1 (only_quantity (JString 0))
     = (Inr (mitem\<lparr>mi_quantity := JString 0, mi_amount := 0\<rparr>),
        mem_shop\<lparr>m_invoices := [(1, minvoice\<lparr>inv_subtotal := 0, inv_tax := Some 0, inv_total := 0\<rparr>)],
                 m_invoiceItems := [(1, mitem\<lparr>mi_quantity := JString 0, mi_amount := 0\<rparr>)]\<rparr>)
   \<and> toFixed2 (parseFloat (mi_quantity mitem) * parseFloat (mi_unitPrice mitem) * (1 - 0 / 100)) = 20"
  by (simp add: mem_eval mem_shop_def minvoice_def mitem_def rate_gb_def only_quantity_def)

section \<open>Quota check\<close>

text \<open>
  C6. For a user the store knows, \<open>checkInvoiceQuota\<close> refuses exactly when the plan is
  \<open>per-invoice\<close> and the current time is after \<open>subscriptionExpiresAt\<close>, or when
  \<open>invoiceQuota\<close> is not \<open>-1\<close> and \<open>invoicesUsed\<close> has reached it (a \<open>null\<close> counter
  or quota counts as 0). An expired bundle is answered with the expiry message, a used-up
  quota (with no expired bundle) with the quota message, and a user with quota \<open>-1\<close> and
  no expired bundle passes whatever \<open>invoicesUsed\<close> is.
\<close>

theorem checkInvoiceQuota_denied_iff:
  assumes "getUserById s userId = Some u"
  shows "(fst (checkInvoiceQuota s now userId) = False
            \<longleftrightarrow> bundle_expired u now \<or> quota_exceeded u)
       \<and> (bundle_expired u now \<longrightarrow>
            snd (checkInvoiceQuota s now userId) = Some (Response 403 ''Your invoice bundle has expired''))
       \<and> (\<not> bundle_expired u now \<and> quota_exceeded u \<longrightarrow>
            snd (checkInvoiceQuota s now userId)
              = Some (Response 403 ''You have reached your invoice quota for this period''))
       \<and> (u_invoiceQuota u = Some (- 1) \<and> \<not> bundle_expired u now \<longrightarrow>
            checkInvoiceQuota s now userId = (True, None))"
  using assms
  by (simp add: checkInvoiceQuota_def bundle_expired_def quota_exceeded_def)

theorem checkInvoiceQuota_denied_iff_witness:
  "getUserById db_users 1 = Some user_free_full
   \<and> quota_exceeded user_free_full \<and> \<not> bundle_expired user_free_full 2000
   \<and> checkInvoiceQuota db_users 2000 1
       = (False, Some (Response 403 ''You have reached your invoice quota for this period''))
   \<and> getUserById db_users 2 = Some user_bundle_expired
   \<and> bundle_expired user_bundle_expired 2000
   \<and> checkInvoiceQuota db_users 2000 2
       = (False, Some (Response 403 ''Your invoice bundle has expired''))
   \<and> getUserById db_users 3 = Some user_unlimited
   \<and> u_invoiceQuota user_unlimited = Some (- 1) \<and> \<not> bundle_expired user_unlimited 2000
   \<and> checkInvoiceQuota db_users 2000 3 = (True, None)"
proof -
  have g1: "getUserById db_users 1 = Some user_free_full"
    and g2: "getUserById db_users 2 = Some user_bundle_expired"
    and g3: "getUserById db_users 3 = Some user_unlimited"
    by (simp_all add: getUserById_def db_users_def empty_db_def user_free_full_def
        user_bundle_expired_def user_unlimited_def)
  have p1: "quota_exceeded user_free_full" "\<not> bundle_expired user_free_full 2000"
    by (simp_all add: quota_exceeded_def bundle_expired_def user_free_full_def nullish0_def)
  have p2: "bundle_expired user_bundle_expired 2000"
    by (simp add: bundle_expired_def user_bundle_expired_def)
  have p3: "u_invoiceQuota user_unlimited = Some (- 1)" "\<not> bundle_expired user_unlimited 2000"
    by (simp_all add: bundle_expired_def user_unlimited_def)
  from checkInvoiceQuota_denied_iff [OF g1, of 2000] p1
  have r1: "checkInvoiceQuota db_users 2000 1
       = (False, Some (Response 403 ''You have reached your invoice quota for this period''))"
    by (simp add: prod_eq_iff)
  from checkInvoiceQuota_denied_iff [OF g2, of 2000] p2
  have r2: "checkInvoiceQuota db_users 2000 2
       = (False, Some (Response 403 ''Your invoice bundle has expired''))"
    by (simp add: prod_eq_iff)
  from checkInvoiceQuota_denied_iff [OF g3, of 2000] p3
  have r3: "checkInvoiceQuota db_users 2000 3 = (True, None)"
    by simp
  show ?thesis using g1 g2 g3 p1 p2 p3 r1 r2 r3 by simp
qed

text \<open>
  C9. A user on the \<open>per-invoice\<close> plan whose \<open>subscriptionExpiresAt\<close> is \<open>null\<close> never
  gets the expiry answer, whatever the current time is: the outcome is decided by the
  comparison of \<open>invoicesUsed\<close> with \<open>invoiceQuota\<close> alone.
\<close>

theorem checkInvoiceQuota_null_expiry:
  assumes "getUserById s userId = Some u"
    and "u_planId u = ''per-invoice''"
    and "u_subscriptionExpiresAt u = None"
  shows "snd (checkInvoiceQuota s now userId) \<noteq> Some (Response 403 ''Your invoice bundle has expired'')
       \<and> (fst (checkInvoiceQuota s now userId) \<longleftrightarrow> \<not> quota_exceeded u)"
  using assms
  by (simp add: checkInvoiceQuota_def quota_exceeded_def)

theorem checkInvoiceQuota_null_expiry_witness:
  "getUserById db_users 4 = Some user_bundle_no_expiry
   \<and> u_planId user_bundle_no_expiry = ''per-invoice''
   \<and> u_subscriptionExpiresAt user_bundle_no_expiry = None
   \<and> \<not> quota_exceeded user_bundle_no_expiry
   \<and> snd (checkInvoiceQuota db_users 99999999 4) \<noteq> Some (Response 403 ''Your invoice bundle has expired'')
   \<and> fst (checkInvoiceQuota db_users 99999999 4)"
proof -
  have g: "getUserById db_users 4 = Some user_bundle_no_expiry"
    by (simp add: getUserById_def db_users_def empty_db_def user_free_full_def
        user_bundle_expired_def user_unlimited_def user_bundle_no_expiry_def)
  have p: "u_planId user_bundle_no_expiry = ''per-invoice''"
    "u_subscriptionExpiresAt user_bundle_no_expiry = None"
    by (simp_all add: user_bundle_no_expiry_def)
  have q: "\<not> quota_exceeded user_bundle_no_expiry"
    by (simp add: quota_exceeded_def user_bundle_no_expiry_def nullish0_def)
  from checkInvoiceQuota_null_expiry [OF g p, of 99999999] q g p
  show ?thesis by simp
qed

end
